theory Spec2Isabelle
  imports Main "HOL-Library.Char_ord" "HOL-Library.List_Lexorder"
begin

section \<open>The FastOrder backend: order lifecycle, payments and tickets\<close>

text \<open>
  The repository is an Express server over a MySQL store. Every route handler is modelled
  as a function from the request (the authenticated user, the body, and the values the
  handler draws from its environment: the clock, the random ticket code) and the store
  to a reply and the store after the handler's queries, in the order the handler issues
  them. The model covers the tables the order lifecycle touches: food, orders,
  order_items, payments and tickets.

  Conventions of the model:
  \<^item> a table is the list of its rows; \<open>SELECT\<close> is \<open>filter\<close>, \<open>rows[0]\<close> is the first
    row of the result, \<open>UPDATE ... WHERE\<close> maps over the rows that match, \<open>DELETE ... WHERE\<close>
    keeps the rows that do not match, \<open>INSERT\<close> appends a row whose id is the table's
    next AUTO_INCREMENT value;
  \<^item> every query succeeds: the \<open>catch\<close> branches that answer 500 after a store failure
    are reached only where the handler itself throws;
  \<^item> prices, quantities and amounts are integers that are values of JavaScript numbers;
    the order total is computed in the arithmetic of those numbers, which rounds beyond
    \<open>2^53\<close>; statuses, methods and roles are strings, as in the code;
  \<^item> a missing or empty request field is the value JavaScript treats as falsy: the empty
    string, the number 0, the empty list.
\<close>

subsection \<open>Tables\<close>

record food =
  f_id :: nat
  f_name :: string
  f_description :: "string option"
  f_price :: int
  f_img_url :: "string option"
  f_is_available :: "bool option"
  f_category_id :: nat

record order_row =
  o_id :: nat
  o_user_id :: nat
  o_total_price :: int
  o_status :: string
  o_created_at :: nat

record order_item =
  oi_id :: nat
  oi_order_id :: nat
  oi_food_id :: nat
  oi_quantity :: int
  oi_unit_price :: int

record payment =
  p_payment_id :: nat
  p_order_id :: nat
  p_method :: string
  p_amount :: int
  p_status :: string
  p_transaction_id :: "string option"
  p_created_at :: nat

record ticket =
  t_id :: nat
  t_order_id :: nat
  t_ticket_code :: string
  t_issued_at :: nat
  t_is_used :: bool

record db =
  foods :: "food list"
  orders :: "order_row list"
  order_items :: "order_item list"
  payments :: "payment list"
  tickets :: "ticket list"
  next_food_id :: nat
  next_order_id :: nat
  next_order_item_id :: nat
  next_payment_id :: nat
  next_ticket_id :: nat

definition empty_db :: db where
  "empty_db = \<lparr>foods = [], orders = [], order_items = [], payments = [], tickets = [],
     next_food_id = 1, next_order_id = 1, next_order_item_id = 1, next_payment_id = 1,
     next_ticket_id = 1\<rparr>"

text \<open>The decoded JWT that \<open>authMiddleware\<close> stores in \<open>req.user\<close>.\<close>

record user =
  u_id :: nat
  u_role :: string

subsection \<open>Queries\<close>

definition update_where :: "('a \<Rightarrow> bool) \<Rightarrow> ('a \<Rightarrow> 'a) \<Rightarrow> 'a list \<Rightarrow> 'a list" where
  "update_where P f rows = map (\<lambda>r. if P r then f r else r) rows"

definition delete_where :: "('a \<Rightarrow> bool) \<Rightarrow> 'a list \<Rightarrow> 'a list" where
  "delete_where P rows = filter (\<lambda>r. \<not> P r) rows"

subsection \<open>Replies\<close>

text \<open>
  Every error reply of the handlers, one constructor per status and message:
  \<open>http_status\<close> gives the status code. The three rejections of the QR scan carry
  Vietnamese messages in the source (\<open>CodeAlreadyUsed\<close>: the code has been used, place a
  new order; \<open>OrderNotYetConfirmed\<close>: the order has not been confirmed;
  \<open>PayBeforePickup\<close>: pay before picking up the food).
\<close>

datatype failure =
    Unauthorized
  | ItemsRequired
  | FoodWithIdNotFound nat
  | ItemNeedsFoodAndQuantity
  | FoodNotFoundV1 nat
  | FoodFieldsRequired
  | FoodNotFound
  | TicketCodeRequired
  | TicketNotFoundOrUsed
  | PaymentNotCompleted
  | PaymentIdRequired
  | PaymentNotFoundOrNotCash
  | PaymentAlreadyCompleted
  | InvalidStatus
  | OrderNotFound
  | OrderNotFoundOrNotAuthorized
  | OnlyPendingCancellable
  | PaymentFieldsRequired
  | AmountMustBePositive
  | PaymentAlreadyCompletedForOrder
  | InvalidPaymentMethod
  | InvalidSignature
  | ServerError
  | TicketNotFound
  | CodeAlreadyUsed
  | OrderNotYetConfirmed
  | PayBeforePickup
  | InvalidOrderStatus

fun http_status :: "failure \<Rightarrow> nat" where
  "http_status Unauthorized = 403"
| "http_status (FoodWithIdNotFound _) = 404"
| "http_status FoodNotFound = 404"
| "http_status PaymentNotFoundOrNotCash = 404"
| "http_status OrderNotFound = 404"
| "http_status OrderNotFoundOrNotAuthorized = 404"
| "http_status TicketNotFound = 404"
| "http_status ServerError = 500"
| "http_status _ = 400"

datatype success =
    OrderCreated nat int string string
  | FoodSaved nat
  | FoodDeleted
  | TicketVerified nat
  | PaymentConfirmed
  | OrderStatusUpdated
  | OrderCancelled
  | PaymentCreated nat string "string option" "string option"
  | RedirectTo string
  | ScanConfirmed

type_synonym reply = "failure + success"

subsection \<open>JavaScript strings\<close>

text \<open>
  Strings are byte strings (UTF-8). \<open>show_nat\<close> and \<open>show_int\<close> are the decimal
  text of a number in a template literal or under \<open>toString\<close>; \<open>pad2\<close> is
  \<open>String(n).padStart(2, '0')\<close>.
\<close>

definition digit_char :: "nat \<Rightarrow> char" where
  "digit_char n = char_of (48 + n)"

fun show_nat :: "nat \<Rightarrow> string" where
  "show_nat n = (if n < 10 then [digit_char n] else show_nat (n div 10) @ [digit_char (n mod 10)])"

declare show_nat.simps [simp del]

definition show_int :: "int \<Rightarrow> string" where
  "show_int i = (if i < 0 then CHR ''-'' # show_nat (nat (- i)) else show_nat (nat i))"

definition pad2 :: "nat \<Rightarrow> string" where
  "pad2 n = (let s = show_nat n in if length s < 2 then replicate (2 - length s) CHR ''0'' @ s else s)"

text \<open>\<open>s.split(c)\<close> for a one-character separator: never empty, \<open>.split(c) = []\<close>.\<close>

fun split_on :: "char \<Rightarrow> string \<Rightarrow> string list" where
  "split_on c [] = [[]]"
| "split_on c (x # xs) =
     (if x = c then [] # split_on c xs
      else (case split_on c xs of [] \<Rightarrow> [[x]] | w # ws \<Rightarrow> (x # w) # ws))"

text \<open>\<open>xs[i]\<close> on an array: \<open>undefined\<close> (here \<open>None\<close>) out of range.\<close>

definition nth_opt :: "'a list \<Rightarrow> nat \<Rightarrow> 'a option" where
  "nth_opt xs i = (if i < length xs then Some (xs ! i) else None)"

text \<open>\<open>s.trim()\<close>, on the ASCII white space (tab, line feed, vertical tab, form feed,
  carriage return, space).\<close>

definition is_space :: "char \<Rightarrow> bool" where
  "is_space c = (of_char c \<in> {9, 10, 11, 12, 13, 32 :: nat})"

definition trim :: "string \<Rightarrow> string" where
  "trim s = rev (dropWhile is_space (rev (dropWhile is_space s)))"

text \<open>
  The decimal reading of a string that is all digits. A bound query parameter that is not
  such a string selects no row of an integer column in this model (MySQL's own coercion
  of other text is not modelled).
\<close>

definition is_digit :: "char \<Rightarrow> bool" where
  "is_digit c = (48 \<le> (of_char c :: nat) \<and> (of_char c :: nat) \<le> 57)"

definition parse_nat :: "string \<Rightarrow> nat option" where
  "parse_nat s =
     (if s \<noteq> [] \<and> list_all is_digit s
      then Some (foldl (\<lambda>acc c. 10 * acc + (of_char c - 48)) 0 s) else None)"

text \<open>
  \<open>encodeURIComponent\<close>: the unreserved characters (letters, digits and
  \<open>- _ . ! ~ * ' ( )\<close>) stand for themselves, every other byte is \<open>%XX\<close> in upper-case
  hexadecimal. \<open>replace_pct20\<close> is \<open>.replace(/%20/g, '+')\<close>: a scan from the left that
  replaces each occurrence of the three characters \<open>%20\<close>.
\<close>

definition unreserved :: "char \<Rightarrow> bool" where
  "unreserved c =
     (let n = (of_char c :: nat) in
        (65 \<le> n \<and> n \<le> 90) \<or> (97 \<le> n \<and> n \<le> 122) \<or> (48 \<le> n \<and> n \<le> 57)
        \<or> n \<in> {45, 95, 46, 33, 126, 42, 39, 40, 41})"

definition hex_digit :: "nat \<Rightarrow> char" where
  "hex_digit n = ''0123456789ABCDEF'' ! n"

definition encode_char :: "char \<Rightarrow> string" where
  "encode_char c =
     (if unreserved c then [c]
      else [CHR ''%'', hex_digit (of_char c div 16), hex_digit (of_char c mod 16)])"

definition encodeURIComponent :: "string \<Rightarrow> string" where
  "encodeURIComponent s = concat (map encode_char s)"

fun replace_pct20 :: "string \<Rightarrow> string" where
  "replace_pct20 (a # b # c # rest) =
     (if a = CHR ''%'' \<and> b = CHR ''2'' \<and> c = CHR ''0'' then CHR ''+'' # replace_pct20 rest
      else a # replace_pct20 (b # c # rest))"
| "replace_pct20 s = s"

fun join :: "string \<Rightarrow> string list \<Rightarrow> string" where
  "join sep [] = []"
| "join sep [x] = x"
| "join sep (x # y # ys) = x @ sep @ join sep (y # ys)"

subsection \<open>JavaScript objects of strings\<close>

text \<open>
  The parameter objects of the payment gateway hold strings; a property can also be
  \<open>null\<close>, and reading a missing property gives \<open>undefined\<close>. An object is the list
  of its properties in insertion order, each key once.
\<close>

datatype jsval = JStr string | JNull | JUndefined

type_synonym js_object = "(string \<times> jsval) list"

definition object_keys :: "js_object \<Rightarrow> string list" where
  "object_keys obj = map fst obj"

definition get :: "js_object \<Rightarrow> string \<Rightarrow> jsval" where
  "get obj k = (case map_of obj k of None \<Rightarrow> JUndefined | Some v \<Rightarrow> v)"

definition delete_key :: "string \<Rightarrow> js_object \<Rightarrow> js_object" where
  "delete_key k obj = filter (\<lambda>kv. fst kv \<noteq> k) obj"

definition to_js_string :: "jsval \<Rightarrow> string" where
  "to_js_string v = (case v of JStr s \<Rightarrow> s | JNull \<Rightarrow> ''null'' | JUndefined \<Rightarrow> ''undefined'')"

subsection \<open>createVnpaySignature\<close>

text \<open>
  The keyed hash (\<open>crypto.createHmac('sha512', secretKey).update(signData).digest('hex')\<close>)
  is a parameter of the model: \<open>hmac secretKey signData\<close>.
\<close>

definition vnp_request_keys :: "string list" where
  "vnp_request_keys =
     [''vnp_Amount'', ''vnp_Command'', ''vnp_CreateDate'', ''vnp_CurrCode'', ''vnp_IpAddr'',
      ''vnp_Locale'', ''vnp_OrderInfo'', ''vnp_OrderType'', ''vnp_ReturnUrl'', ''vnp_TmnCode'',
      ''vnp_TxnRef'', ''vnp_Version'', ''vnp_ExpireDate'', ''vnp_Bill_Mobile'', ''vnp_Bill_Email'',
      ''vnp_Bill_FirstName'', ''vnp_Bill_LastName'', ''vnp_Bill_Address'', ''vnp_Bill_City'',
      ''vnp_Bill_Country'', ''vnp_Bill_State'', ''vnp_Inv_Phone'', ''vnp_Inv_Email'',
      ''vnp_Inv_Customer'', ''vnp_Inv_Address'', ''vnp_Inv_Company'', ''vnp_Inv_Taxcode'',
      ''vnp_Inv_Type'', ''vnp_BankCode'']"

definition present :: "js_object \<Rightarrow> string \<Rightarrow> bool" where
  "present params k = (get params k \<noteq> JUndefined \<and> get params k \<noteq> JStr [] \<and> get params k \<noteq> JNull)"

definition callback_keys :: "js_object \<Rightarrow> string list" where
  "callback_keys params =
     sort (filter (\<lambda>k. k \<noteq> ''vnp_SecureHash'' \<and> k \<noteq> ''vnp_SecureHashType''
                       \<and> get params k \<noteq> JStr [] \<and> get params k \<noteq> JNull)
                  (object_keys params))"

definition key_value :: "js_object \<Rightarrow> string \<Rightarrow> string" where
  "key_value params k =
     k @ ''='' @ replace_pct20 (encodeURIComponent (to_js_string (get params k)))"

definition serialize :: "js_object \<Rightarrow> string list \<Rightarrow> string" where
  "serialize params ks = join ''&'' (map (key_value params) ks)"

definition createVnpaySignature ::
  "(string \<Rightarrow> string \<Rightarrow> string) \<Rightarrow> js_object \<Rightarrow> string \<Rightarrow> bool \<Rightarrow> string" where
  "createVnpaySignature hmac params secretKey isCallback =
     (let orderedKeys =
            (if isCallback then callback_keys params
             else filter (present params) vnp_request_keys);
          signData = serialize params orderedKeys
      in hmac secretKey signData)"

subsection \<open>The food catalogue (admin only)\<close>

record food_body =
  fb_name :: string
  fb_description :: "string option"
  fb_price :: int
  fb_img_url :: "string option"
  fb_is_available :: "bool option"
  fb_category_id :: nat

text \<open>\<open>v || null\<close> on an optional string.\<close>

definition or_null :: "string option \<Rightarrow> string option" where
  "or_null v = (case v of Some (c # cs) \<Rightarrow> Some (c # cs) | _ \<Rightarrow> None)"

text \<open>POST /api/foods.\<close>

definition add_food :: "user \<Rightarrow> food_body \<Rightarrow> db \<Rightarrow> reply \<times> db" where
  "add_food u b d =
     (if u_role u \<noteq> ''admin'' then (Inl Unauthorized, d)
      else if fb_name b = [] \<or> fb_price b = 0 \<or> fb_category_id b = 0
      then (Inl FoodFieldsRequired, d)
      else
        (Inr (FoodSaved (next_food_id d)),
         d\<lparr>foods := foods d @
              [\<lparr>f_id = next_food_id d, f_name = fb_name b,
                f_description = or_null (fb_description b), f_price = fb_price b,
                f_img_url = or_null (fb_img_url b),
                f_is_available = (case fb_is_available b of None \<Rightarrow> Some True | Some a \<Rightarrow> Some a),
                f_category_id = fb_category_id b\<rparr>],
            next_food_id := next_food_id d + 1\<rparr>))"

text \<open>PUT /api/foods/:id.\<close>

definition update_food :: "user \<Rightarrow> nat \<Rightarrow> food_body \<Rightarrow> db \<Rightarrow> reply \<times> db" where
  "update_food u fid b d =
     (if u_role u \<noteq> ''admin'' then (Inl Unauthorized, d)
      else if fb_name b = [] \<or> fb_price b = 0 \<or> fb_category_id b = 0
      then (Inl FoodFieldsRequired, d)
      else if filter (\<lambda>f. f_id f = fid) (foods d) = [] then (Inl FoodNotFound, d)
      else
        (Inr (FoodSaved fid),
         d\<lparr>foods := update_where (\<lambda>f. f_id f = fid)
              (\<lambda>f. f\<lparr>f_name := fb_name b, f_description := or_null (fb_description b),
                      f_price := fb_price b, f_img_url := or_null (fb_img_url b),
                      f_is_available := fb_is_available b,
                      f_category_id := fb_category_id b\<rparr>) (foods d)\<rparr>))"

text \<open>DELETE /api/foods/:id. The foreign keys of the schema, which is not part of the
  repository, are not modelled: the delete removes the food row only.\<close>

definition delete_food :: "user \<Rightarrow> nat \<Rightarrow> db \<Rightarrow> reply \<times> db" where
  "delete_food u fid d =
     (if u_role u \<noteq> ''admin'' then (Inl Unauthorized, d)
      else if filter (\<lambda>f. f_id f = fid) (foods d) = [] then (Inl FoodNotFound, d)
      else (Inr FoodDeleted, d\<lparr>foods := delete_where (\<lambda>f. f_id f = fid) (foods d)\<rparr>))"

subsection \<open>JavaScript numbers\<close>

text \<open>
  A JavaScript number is an IEEE 754 double. The prices and quantities of the model are
  integers that are values of such numbers; a product or a sum of two of them is
  rounded to the nearest double, a tie going to the even 53-bit significand.
  \<open>round_to_double x\<close> is that rounding of the integer \<open>x\<close> with an unbounded exponent,
  and \<open>js_number x\<close> the resulting number: \<open>None\<close> stands for a number that is not finite
  (\<open>Infinity\<close> when the rounding passes the largest double). An operation on a number
  that is not finite gives one that is not finite (\<open>Infinity\<close> or \<open>NaN\<close>).
\<close>

fun bit_length :: "nat \<Rightarrow> nat" where
  "bit_length n = (if n = 0 then 0 else Suc (bit_length (n div 2)))"

declare bit_length.simps [simp del]

definition round_to_double :: "int \<Rightarrow> int" where
  "round_to_double x =
     (let a = \<bar>x\<bar> in
      if a < 2 ^ 53 then x
      else
        (let e = bit_length (nat a) - 53;
             q = a div 2 ^ e;
             r = a mod 2 ^ e;
             half = 2 ^ (e - 1);
             m = (if half < r \<or> (r = half \<and> odd q) then q + 1 else q)
         in sgn x * (m * 2 ^ e)))"

definition js_number :: "int \<Rightarrow> int option" where
  "js_number x = (let r = round_to_double x in if \<bar>r\<bar> < 2 ^ 1024 then Some r else None)"

text \<open>\<open>a * b\<close> and \<open>total += p\<close>.\<close>

definition js_mul :: "int \<Rightarrow> int \<Rightarrow> int option" where
  "js_mul a b = js_number (a * b)"

definition js_add :: "int option \<Rightarrow> int option \<Rightarrow> int option" where
  "js_add a b = (case (a, b) of (Some x, Some y) \<Rightarrow> js_number (x + y) | _ \<Rightarrow> None)"

subsection \<open>POST /api/orders\<close>

record order_line =
  food_id :: nat
  quantity :: int

text \<open>\<open>SELECT price FROM food WHERE id = ?\<close> and \<open>foods[0]\<close>.\<close>

definition select_price :: "food list \<Rightarrow> nat \<Rightarrow> int option" where
  "select_price fs fid =
     (case filter (\<lambda>f. f_id f = fid) fs of [] \<Rightarrow> None | f # _ \<Rightarrow> Some (f_price f))"

text \<open>The first loop: the running total, a JavaScript number, and the list
  \<open>itemsWithPrice\<close>.\<close>

fun price_items ::
  "food list \<Rightarrow> order_line list \<Rightarrow> int option \<Rightarrow> (order_line \<times> int) list
     \<Rightarrow> failure + int option \<times> (order_line \<times> int) list" where
  "price_items fs [] total_price itemsWithPrice = Inr (total_price, itemsWithPrice)"
| "price_items fs (item # rest) total_price itemsWithPrice =
     (case select_price fs (food_id item) of
        None \<Rightarrow> Inl (FoodWithIdNotFound (food_id item))
      | Some unit_price \<Rightarrow>
          price_items fs rest (js_add total_price (js_mul unit_price (quantity item)))
            (itemsWithPrice @ [(item, unit_price)]))"

text \<open>The second loop: one \<open>INSERT INTO order_items\<close> per priced item.\<close>

fun insert_order_items :: "nat \<Rightarrow> (order_line \<times> int) list \<Rightarrow> db \<Rightarrow> db" where
  "insert_order_items oid [] d = d"
| "insert_order_items oid ((item, unit_price) # rest) d =
     insert_order_items oid rest
       (d\<lparr>order_items := order_items d @
            [\<lparr>oi_id = next_order_item_id d, oi_order_id = oid, oi_food_id = food_id item,
              oi_quantity = quantity item, oi_unit_price = unit_price\<rparr>],
          next_order_item_id := next_order_item_id d + 1\<rparr>)"

text \<open>
  The handler of the server with the payment gateway. \<open>ticket_code\<close> is the value of
  \<open>crypto.randomBytes(8).toString('hex')\<close>, \<open>now\<close> the store's \<open>NOW()\<close>. A total that
  is not finite is bound into the first \<open>INSERT\<close> as the bare word \<open>Infinity\<close> or
  \<open>NaN\<close>, which the store refuses: the \<open>catch\<close> answers 500 and nothing is written.
\<close>

definition create_order :: "user \<Rightarrow> order_line list \<Rightarrow> string \<Rightarrow> nat \<Rightarrow> db \<Rightarrow> reply \<times> db" where
  "create_order u items ticket_code now d =
     (if items = [] then (Inl ItemsRequired, d)
      else
        (case price_items (foods d) items (Some 0) [] of
           Inl e \<Rightarrow> (Inl e, d)
         | Inr (None, itemsWithPrice) \<Rightarrow> (Inl ServerError, d)
         | Inr (Some total_price, itemsWithPrice) \<Rightarrow>
             let oid = next_order_id d;
                 d1 = d\<lparr>orders := orders d @
                         [\<lparr>o_id = oid, o_user_id = u_id u, o_total_price = total_price,
                           o_status = ''pending'', o_created_at = now\<rparr>],
                       next_order_id := oid + 1\<rparr>;
                 d2 = insert_order_items oid itemsWithPrice d1;
                 d3 = d2\<lparr>tickets := tickets d2 @
                         [\<lparr>t_id = next_ticket_id d2, t_order_id = oid,
                           t_ticket_code = ticket_code, t_issued_at = now, t_is_used = False\<rparr>],
                       next_ticket_id := next_ticket_id d2 + 1\<rparr>
             in (Inr (OrderCreated oid total_price ''pending'' ticket_code), d3)))"

text \<open>
  Modelled from the spec: the default of the column \<open>tickets.is_used\<close>, taken by the
  inserts that do not name the column. The schema is not part of the repository; the
  spec's IssueTicket inserts \<open>Ticket(is_used=false, issued_at=now)\<close>.
\<close>

definition is_used_default :: bool where
  "is_used_default = False"

text \<open>
  The older server in the same file (the one without the payment gateway) has its own
  handler for the route. Its first loop validates each item; its second loop reads the
  price again and throws (answer 500) on a food that has gone.
\<close>

fun total_price_v1 :: "food list \<Rightarrow> order_line list \<Rightarrow> int option \<Rightarrow> failure + int option" where
  "total_price_v1 fs [] total_price = Inr total_price"
| "total_price_v1 fs (item # rest) total_price =
     (if food_id item = 0 \<or> quantity item = 0 \<or> quantity item \<le> 0
      then Inl ItemNeedsFoodAndQuantity
      else (case select_price fs (food_id item) of
              None \<Rightarrow> Inl (FoodNotFoundV1 (food_id item))
            | Some price \<Rightarrow>
                total_price_v1 fs rest (js_add total_price (js_mul price (quantity item)))))"

fun insert_order_items_v1 :: "nat \<Rightarrow> order_line list \<Rightarrow> db \<Rightarrow> failure option \<times> db" where
  "insert_order_items_v1 oid [] d = (None, d)"
| "insert_order_items_v1 oid (item # rest) d =
     (case select_price (foods d) (food_id item) of
        None \<Rightarrow> (Some ServerError, d)
      | Some price \<Rightarrow>
          insert_order_items_v1 oid rest
            (d\<lparr>order_items := order_items d @
                 [\<lparr>oi_id = next_order_item_id d, oi_order_id = oid, oi_food_id = food_id item,
                   oi_quantity = quantity item, oi_unit_price = price\<rparr>],
               next_order_item_id := next_order_item_id d + 1\<rparr>))"

definition create_order_v1 :: "user \<Rightarrow> order_line list \<Rightarrow> string \<Rightarrow> nat \<Rightarrow> db \<Rightarrow> reply \<times> db" where
  "create_order_v1 u items ticket_code now d =
     (if items = [] then (Inl ItemsRequired, d)
      else
        (case total_price_v1 (foods d) items (Some 0) of
           Inl e \<Rightarrow> (Inl e, d)
         | Inr None \<Rightarrow> (Inl ServerError, d)
         | Inr (Some total_price) \<Rightarrow>
             let oid = next_order_id d;
                 d1 = d\<lparr>orders := orders d @
                         [\<lparr>o_id = oid, o_user_id = u_id u, o_total_price = total_price,
                           o_status = ''pending'', o_created_at = now\<rparr>],
                       next_order_id := oid + 1\<rparr>
             in (case insert_order_items_v1 oid items d1 of
                   (Some e, d2) \<Rightarrow> (Inl e, d2)
                 | (None, d2) \<Rightarrow>
                     (Inr (OrderCreated oid total_price ''pending'' ticket_code),
                      d2\<lparr>tickets := tickets d2 @
                           [\<lparr>t_id = next_ticket_id d2, t_order_id = oid,
                             t_ticket_code = ticket_code, t_issued_at = now,
                             t_is_used = is_used_default\<rparr>],
                         next_ticket_id := next_ticket_id d2 + 1\<rparr>))))"

subsection \<open>POST /api/tickets/verify\<close>

text \<open>The rows of \<open>tickets t JOIN payments p ON t.order_id = p.order_id\<close> with the
  code and \<open>is_used = false\<close>, in the order of the tickets and then of the payments.\<close>

definition unused_tickets_join_payments :: "string \<Rightarrow> db \<Rightarrow> (ticket \<times> payment) list" where
  "unused_tickets_join_payments code d =
     concat (map (\<lambda>t. map (\<lambda>p. (t, p)) (filter (\<lambda>p. p_order_id p = t_order_id t) (payments d)))
                 (filter (\<lambda>t. t_ticket_code t = code \<and> t_is_used t = False) (tickets d)))"

definition tickets_verify :: "user \<Rightarrow> string \<Rightarrow> db \<Rightarrow> reply \<times> db" where
  "tickets_verify u ticket_code d =
     (if u_role u \<noteq> ''admin'' then (Inl Unauthorized, d)
      else if ticket_code = [] then (Inl TicketCodeRequired, d)
      else
        (case unused_tickets_join_payments ticket_code d of
           [] \<Rightarrow> (Inl TicketNotFoundOrUsed, d)
         | (t, p) # _ \<Rightarrow>
             if p_status p \<noteq> ''completed'' then (Inl PaymentNotCompleted, d)
             else
               (Inr (TicketVerified (t_order_id t)),
                d\<lparr>tickets := update_where (\<lambda>x. t_ticket_code x = ticket_code)
                     (\<lambda>x. x\<lparr>t_is_used := True\<rparr>) (tickets d)\<rparr>)))"

subsection \<open>POST /api/payments/confirm\<close>

definition confirm_payment :: "user \<Rightarrow> nat \<Rightarrow> db \<Rightarrow> reply \<times> db" where
  "confirm_payment u payment_id d =
     (if u_role u \<noteq> ''admin'' then (Inl Unauthorized, d)
      else if payment_id = 0 then (Inl PaymentIdRequired, d)
      else
        (case filter (\<lambda>p. p_payment_id p = payment_id \<and> p_method p = ''cash'') (payments d) of
           [] \<Rightarrow> (Inl PaymentNotFoundOrNotCash, d)
         | p # _ \<Rightarrow>
             if p_status p = ''completed'' then (Inl PaymentAlreadyCompleted, d)
             else
               (Inr PaymentConfirmed,
                d\<lparr>payments := update_where (\<lambda>x. p_payment_id x = payment_id)
                     (\<lambda>x. x\<lparr>p_status := ''completed''\<rparr>) (payments d)\<rparr>)))"

subsection \<open>PUT /api/admin/orders/:orderId/status\<close>

definition update_order_status :: "user \<Rightarrow> nat \<Rightarrow> string \<Rightarrow> db \<Rightarrow> reply \<times> db" where
  "update_order_status u orderId status d =
     (if u_role u \<noteq> ''admin'' then (Inl Unauthorized, d)
      else if status \<notin> set [''pending'', ''confirmed'', ''completed''] then (Inl InvalidStatus, d)
      else if filter (\<lambda>r. o_id r = orderId) (orders d) = [] then (Inl OrderNotFound, d)
      else
        (Inr OrderStatusUpdated,
         d\<lparr>orders := update_where (\<lambda>r. o_id r = orderId) (\<lambda>r. r\<lparr>o_status := status\<rparr>) (orders d)\<rparr>))"

subsection \<open>DELETE /api/orders/:orderId/cancel\<close>

definition cancel_order :: "user \<Rightarrow> nat \<Rightarrow> db \<Rightarrow> reply \<times> db" where
  "cancel_order u orderId d =
     (case filter (\<lambda>r. o_id r = orderId \<and> o_user_id r = u_id u) (orders d) of
        [] \<Rightarrow> (Inl OrderNotFoundOrNotAuthorized, d)
      | ord # _ \<Rightarrow>
          if o_status ord \<noteq> ''pending'' then (Inl OnlyPendingCancellable, d)
          else
            let d1 = d\<lparr>tickets := delete_where (\<lambda>t. t_order_id t = orderId) (tickets d)\<rparr>;
                d2 = d1\<lparr>order_items := delete_where (\<lambda>i. oi_order_id i = orderId) (order_items d1)\<rparr>;
                d3 = d2\<lparr>payments := delete_where (\<lambda>p. p_order_id p = orderId) (payments d2)\<rparr>;
                d4 = d3\<lparr>orders := delete_where (\<lambda>r. o_id r = orderId) (orders d3)\<rparr>
            in (Inr OrderCancelled, d4))"

subsection \<open>POST /api/payments\<close>

record payment_body =
  pb_order_id :: nat
  pb_method :: string
  pb_amount :: int
  pb_order_desc :: "string option"
  pb_order_type :: "string option"
  pb_language :: "string option"
  pb_bank_code :: string
  pb_txtexpire :: string
  pb_txt_billing_mobile :: string
  pb_txt_billing_email :: string
  pb_txt_billing_fullname :: string
  pb_txt_inv_addr1 :: string
  pb_txt_bill_city :: string
  pb_txt_bill_country :: string
  pb_txt_bill_state :: string
  pb_txt_inv_mobile :: string
  pb_txt_inv_email :: string
  pb_txt_inv_customer :: string
  pb_txt_inv_company :: string
  pb_txt_inv_taxcode :: string
  pb_cbo_inv_type :: string

text \<open>The local time read from \<open>new Date()\<close> (\<open>getMonth\<close> counts from 0).\<close>

record js_date =
  getFullYear :: nat
  getMonth :: nat
  getDate :: nat
  getHours :: nat
  getMinutes :: nat
  getSeconds :: nat

text \<open>What the handler reads from its environment: \<open>req.ip\<close>, \<open>new Date()\<close>, the two
  readings of \<open>Date.now()\<close> (for the transaction reference and for the ticket code) and
  the store's \<open>NOW()\<close>.\<close>

record payment_env =
  pe_ip :: string
  pe_date :: js_date
  pe_txn_ms :: nat
  pe_ticket_ms :: nat
  pe_now :: nat

text \<open>\<open>process.env\<close> and the keyed hash.\<close>

record config =
  hmac_sha512 :: "string \<Rightarrow> string \<Rightarrow> string"
  vnpay_return_url :: jsval
  vnpay_tmn_code :: jsval
  vnpay_hash_secret :: string
  vnpay_url :: string

definition create_date :: "js_date \<Rightarrow> string" where
  "create_date date =
     show_nat (getFullYear date) @ pad2 (getMonth date + 1) @ pad2 (getDate date)
     @ pad2 (getHours date) @ pad2 (getMinutes date) @ pad2 (getSeconds date)"

text \<open>The first and last name cut from \<open>txt_billing_fullname\<close>.\<close>

definition bill_names :: "string \<Rightarrow> string \<times> string" where
  "bill_names fullname =
     (if fullname \<noteq> [] \<and> trim fullname \<noteq> [] then
        (case split_on CHR '' '' (trim fullname) of
           [] \<Rightarrow> ([], [])
         | first # rest \<Rightarrow> (first, if rest = [] then [] else last rest))
      else ([], []))"

text \<open>\<open>...(v && { key: v })\<close>: the property is there when the string is not empty.\<close>

definition opt_field :: "string \<Rightarrow> string \<Rightarrow> js_object" where
  "opt_field k v = (if v = [] then [] else [(k, JStr v)])"

definition txn_ref :: "nat \<Rightarrow> nat \<Rightarrow> string" where
  "txn_ref order_id ms = ''ORDER_'' @ show_nat order_id @ ''_'' @ show_nat ms"

definition build_vnp_params :: "config \<Rightarrow> payment_body \<Rightarrow> payment_env \<Rightarrow> js_object" where
  "build_vnp_params cfg b env =
     (let names = bill_names (pb_txt_billing_fullname b) in
      [(''vnp_Amount'', JStr (show_int (pb_amount b * 100))),
       (''vnp_Command'', JStr ''pay''),
       (''vnp_CreateDate'', JStr (create_date (pe_date env))),
       (''vnp_CurrCode'', JStr ''VND''),
       (''vnp_IpAddr'', JStr (if pe_ip env = [] then ''127.0.0.1'' else pe_ip env)),
       (''vnp_Locale'', JStr (case pb_language b of None \<Rightarrow> ''vn'' | Some l \<Rightarrow> l)),
       (''vnp_OrderInfo'',
          JStr (case pb_order_desc b of
                  None \<Rightarrow> ''Thanh toan don hang '' @ show_nat (pb_order_id b) | Some t \<Rightarrow> t)),
       (''vnp_OrderType'', JStr (case pb_order_type b of None \<Rightarrow> ''billpayment'' | Some t \<Rightarrow> t)),
       (''vnp_ReturnUrl'', vnpay_return_url cfg),
       (''vnp_TmnCode'', vnpay_tmn_code cfg),
       (''vnp_TxnRef'', JStr (txn_ref (pb_order_id b) (pe_txn_ms env))),
       (''vnp_Version'', JStr ''2.1.0'')]
      @ opt_field ''vnp_ExpireDate'' (pb_txtexpire b)
      @ opt_field ''vnp_Bill_Mobile'' (pb_txt_billing_mobile b)
      @ opt_field ''vnp_Bill_Email'' (pb_txt_billing_email b)
      @ opt_field ''vnp_Bill_FirstName'' (fst names)
      @ opt_field ''vnp_Bill_LastName'' (snd names)
      @ opt_field ''vnp_Bill_Address'' (pb_txt_inv_addr1 b)
      @ opt_field ''vnp_Bill_City'' (pb_txt_bill_city b)
      @ opt_field ''vnp_Bill_Country'' (pb_txt_bill_country b)
      @ opt_field ''vnp_Bill_State'' (pb_txt_bill_state b)
      @ opt_field ''vnp_Inv_Phone'' (pb_txt_inv_mobile b)
      @ opt_field ''vnp_Inv_Email'' (pb_txt_inv_email b)
      @ opt_field ''vnp_Inv_Customer'' (pb_txt_inv_customer b)
      @ opt_field ''vnp_Inv_Address'' (pb_txt_inv_addr1 b)
      @ opt_field ''vnp_Inv_Company'' (pb_txt_inv_company b)
      @ opt_field ''vnp_Inv_Taxcode'' (pb_txt_inv_taxcode b)
      @ opt_field ''vnp_Inv_Type'' (pb_cbo_inv_type b)
      @ opt_field ''vnp_BankCode'' (pb_bank_code b))"

text \<open>The redirect URL: the signed parameters, serialised in the fixed order with the
  signature last.\<close>

definition build_payment_url :: "config \<Rightarrow> js_object \<Rightarrow> string" where
  "build_payment_url cfg vnpParams =
     (let signed = vnpParams @
            [(''vnp_SecureHash'',
              JStr (createVnpaySignature (hmac_sha512 cfg) vnpParams (vnpay_hash_secret cfg) False))];
          orderedKeys = filter (present signed) (vnp_request_keys @ [''vnp_SecureHash''])
      in vnpay_url cfg @ ''?'' @ serialize signed orderedKeys)"

text \<open>"Kiem tra thanh toan trung lap": the check for an earlier payment of the order.
  A completed first row rejects the request; a pending, failed or cancelled first row has
  every payment of the order deleted.\<close>

definition purge_payments :: "nat \<Rightarrow> db \<Rightarrow> failure + db" where
  "purge_payments order_id d =
     (case filter (\<lambda>p. p_order_id p = order_id) (payments d) of
        [] \<Rightarrow> Inr d
      | payment # _ \<Rightarrow>
          if p_status payment = ''completed'' then Inl PaymentAlreadyCompletedForOrder
          else if p_status payment = ''pending'' \<or> p_status payment = ''failed''
                  \<or> p_status payment = ''cancelled''
          then Inr (d\<lparr>payments := delete_where (\<lambda>p. p_order_id p = order_id) (payments d)\<rparr>)
          else Inr d)"

text \<open>The tail of the handler: the payment row, the order's status for cash, the ticket
  when the order has none, and the answer.\<close>

definition store_payment ::
  "payment_body \<Rightarrow> payment_env \<Rightarrow> string \<Rightarrow> string option \<Rightarrow> string option \<Rightarrow> db \<Rightarrow> reply \<times> db" where
  "store_payment b env status transaction_id payment_url d =
     (let pid = next_payment_id d;
          d1 = d\<lparr>payments := payments d @
                  [\<lparr>p_payment_id = pid, p_order_id = pb_order_id b, p_method = pb_method b,
                    p_amount = pb_amount b, p_status = status,
                    p_transaction_id = transaction_id, p_created_at = pe_now env\<rparr>],
                next_payment_id := pid + 1\<rparr>;
          d2 = (if pb_method b = ''cash''
                then d1\<lparr>orders := update_where (\<lambda>r. o_id r = pb_order_id b)
                           (\<lambda>r. r\<lparr>o_status := ''confirmed''\<rparr>) (orders d1)\<rparr>
                else d1);
          d3 = (if filter (\<lambda>t. t_order_id t = pb_order_id b) (tickets d2) = []
                then d2\<lparr>tickets := tickets d2 @
                           [\<lparr>t_id = next_ticket_id d2, t_order_id = pb_order_id b,
                             t_ticket_code = ''TICKET_'' @ show_nat (pb_order_id b) @ ''_''
                                               @ show_nat (pe_ticket_ms env),
                             t_issued_at = pe_now env, t_is_used = is_used_default\<rparr>],
                         next_ticket_id := next_ticket_id d2 + 1\<rparr>
                else d2)
      in (Inr (PaymentCreated pid status transaction_id payment_url), d3))"

definition record_payment :: "config \<Rightarrow> user \<Rightarrow> payment_body \<Rightarrow> payment_env \<Rightarrow> db \<Rightarrow> reply \<times> db" where
  "record_payment cfg u b env d =
     (if pb_order_id b = 0 \<or> pb_method b = [] \<or> pb_amount b = 0
      then (Inl PaymentFieldsRequired, d)
      else if pb_amount b \<le> 0 then (Inl AmountMustBePositive, d)
      else if filter (\<lambda>r. o_id r = pb_order_id b \<and> o_user_id r = u_id u) (orders d) = []
      then (Inl OrderNotFoundOrNotAuthorized, d)
      else
        (case purge_payments (pb_order_id b) d of
           Inl e \<Rightarrow> (Inl e, d)
         | Inr d1 \<Rightarrow>
             if pb_method b = ''cash'' then store_payment b env ''pending'' None None d1
             else if pb_method b = ''online'' then
               (let vnpParams = build_vnp_params cfg b env
                in store_payment b env ''pending''
                     (Some (txn_ref (pb_order_id b) (pe_txn_ms env)))
                     (Some (build_payment_url cfg vnpParams)) d1)
             else (Inl InvalidPaymentMethod, d1)))"

subsection \<open>GET /api/vnpay/return\<close>

text \<open>
  \<open>vnpParams.vnp_TxnRef.split('_')[1]\<close>, bound to the \<open>order_id\<close> and \<open>id\<close> columns:
  the rows it selects are those whose id it is the decimal text of.
\<close>

definition txn_order_id :: "string \<Rightarrow> nat option" where
  "txn_order_id ref =
     (case nth_opt (split_on CHR ''_'' ref) 1 of None \<Rightarrow> None | Some s \<Rightarrow> parse_nat s)"

definition vnpay_return :: "config \<Rightarrow> js_object \<Rightarrow> db \<Rightarrow> reply \<times> db" where
  "vnpay_return cfg query d =
     (let secureHash = get query ''vnp_SecureHash'';
          vnpParams = delete_key ''vnp_SecureHashType'' (delete_key ''vnp_SecureHash'' query);
          calculatedHash =
            createVnpaySignature (hmac_sha512 cfg) vnpParams (vnpay_hash_secret cfg) True
      in if secureHash \<noteq> JStr calculatedHash then (Inl InvalidSignature, d)
         else
           (case get vnpParams ''vnp_TxnRef'' of
              JStr ref \<Rightarrow>
                let order_id = txn_order_id ref in
                if get vnpParams ''vnp_ResponseCode'' = JStr ''00'' then
                  (let d1 = d\<lparr>payments := update_where (\<lambda>p. Some (p_order_id p) = order_id)
                                  (\<lambda>p. p\<lparr>p_status := ''completed''\<rparr>) (payments d)\<rparr>;
                       d2 = d1\<lparr>orders := update_where (\<lambda>r. Some (o_id r) = order_id)
                                  (\<lambda>r. r\<lparr>o_status := ''completed''\<rparr>) (orders d1)\<rparr>
                   in (Inr (RedirectTo ''http://localhost:3001/orders?payment=success''), d2))
                else
                  (Inr (RedirectTo ''http://localhost:3001/orders?payment=cancelled''),
                   d\<lparr>payments := update_where (\<lambda>p. Some (p_order_id p) = order_id)
                        (\<lambda>p. p\<lparr>p_status := ''cancelled''\<rparr>) (payments d)\<rparr>)
            | _ \<Rightarrow> (Inl ServerError, d)))"

subsection \<open>POST /api/admin/scan-qr\<close>

text \<open>The rows of \<open>tickets t JOIN orders o ON t.order_id = o.id WHERE t.ticket_code = ?\<close>.\<close>

definition tickets_join_orders :: "string \<Rightarrow> db \<Rightarrow> (ticket \<times> order_row) list" where
  "tickets_join_orders code d =
     concat (map (\<lambda>t. map (\<lambda>r. (t, r)) (filter (\<lambda>r. o_id r = t_order_id t) (orders d)))
                 (filter (\<lambda>t. t_ticket_code t = code) (tickets d)))"

definition scan_qr :: "user \<Rightarrow> string \<Rightarrow> db \<Rightarrow> reply \<times> db" where
  "scan_qr u ticket_code d =
     (if u_role u \<noteq> ''admin'' then (Inl Unauthorized, d)
      else if ticket_code = [] then (Inl TicketCodeRequired, d)
      else
        (case tickets_join_orders ticket_code d of
           [] \<Rightarrow> (Inl TicketNotFound, d)
         | (ticket, ord) # _ \<Rightarrow>
             if t_is_used ticket \<or> o_status ord = ''scanned'' then (Inl CodeAlreadyUsed, d)
             else if o_status ord = ''pending'' then (Inl OrderNotYetConfirmed, d)
             else if o_status ord = ''confirmed'' then (Inl PayBeforePickup, d)
             else if o_status ord = ''completed'' then
               (let d1 = d\<lparr>orders := update_where (\<lambda>r. o_id r = t_order_id ticket)
                               (\<lambda>r. r\<lparr>o_status := ''scanned''\<rparr>) (orders d)\<rparr>;
                    d2 = d1\<lparr>tickets := update_where (\<lambda>x. t_id x = t_id ticket)
                               (\<lambda>x. x\<lparr>t_is_used := True\<rparr>) (tickets d1)\<rparr>
                in (Inr ScanConfirmed, d2))
             else (Inl InvalidOrderStatus, d)))"

subsection \<open>DELETE /api/orders/:orderId\<close>

definition soft_cancel_order :: "user \<Rightarrow> nat \<Rightarrow> db \<Rightarrow> reply \<times> db" where
  "soft_cancel_order u orderId d =
     (if filter (\<lambda>r. o_id r = orderId \<and> o_user_id r = u_id u) (orders d) = []
      then (Inl OrderNotFoundOrNotAuthorized, d)
      else
        (Inr OrderCancelled,
         d\<lparr>orders := update_where (\<lambda>r. o_id r = orderId)
              (\<lambda>r. r\<lparr>o_status := ''cancelled''\<rparr>) (orders d)\<rparr>))"

subsection \<open>The server as a transition system\<close>

text \<open>The requests that write to the modelled tables, and the states the server reaches
  from the empty store.\<close>

datatype request =
    AddFood user food_body
  | UpdateFood user nat food_body
  | DeleteFood user nat
  | CreateOrder user "order_line list" string nat
  | TicketsVerify user string
  | ConfirmPayment user nat
  | UpdateOrderStatus user nat string
  | CancelOrder user nat
  | RecordPayment user payment_body payment_env
  | VnpayReturn js_object
  | ScanQr user string
  | SoftCancelOrder user nat

fun handle :: "config \<Rightarrow> request \<Rightarrow> db \<Rightarrow> reply \<times> db" where
  "handle cfg (AddFood u b) d = add_food u b d"
| "handle cfg (UpdateFood u fid b) d = update_food u fid b d"
| "handle cfg (DeleteFood u fid) d = delete_food u fid d"
| "handle cfg (CreateOrder u items code now) d = create_order u items code now d"
| "handle cfg (TicketsVerify u code) d = tickets_verify u code d"
| "handle cfg (ConfirmPayment u pid) d = confirm_payment u pid d"
| "handle cfg (UpdateOrderStatus u oid status) d = update_order_status u oid status d"
| "handle cfg (CancelOrder u oid) d = cancel_order u oid d"
| "handle cfg (RecordPayment u b env) d = record_payment cfg u b env d"
| "handle cfg (VnpayReturn query) d = vnpay_return cfg query d"
| "handle cfg (ScanQr u code) d = scan_qr u code d"
| "handle cfg (SoftCancelOrder u oid) d = soft_cancel_order u oid d"

fun run :: "config \<Rightarrow> request list \<Rightarrow> db \<Rightarrow> db" where
  "run cfg [] d = d"
| "run cfg (req # reqs) d = run cfg reqs (snd (handle cfg req d))"

inductive reachable :: "config \<Rightarrow> db \<Rightarrow> bool" for cfg :: config where
  reachable_empty: "reachable cfg empty_db"
| reachable_step: "reachable cfg d \<Longrightarrow> reachable cfg (snd (handle cfg req d))"

subsection \<open>Invariants of the reachable stores\<close>

text \<open>
  Every payment has one of the three statuses the handlers write, and an order has at
  most one payment row. Ticket ids are pairwise different and below the next id.
\<close>

definition payments_inv :: "db \<Rightarrow> bool" where
  "payments_inv d \<longleftrightarrow>
     list_all (\<lambda>p. p_status p = ''pending'' \<or> p_status p = ''completed''
                      \<or> p_status p = ''cancelled'') (payments d)
     \<and> distinct (map p_order_id (payments d))"

definition tickets_inv :: "db \<Rightarrow> bool" where
  "tickets_inv d \<longleftrightarrow>
     distinct (map t_id (tickets d)) \<and> list_all (\<lambda>t. t_id t < next_ticket_id d) (tickets d)"

text \<open>
  What the two redeeming handlers have checked when they mark the ticket \<open>t\<close> used. The
  QR scan marks the unused ticket of the scanned code whose order has status completed.
  The ticket verification marks every ticket that carries the submitted code, once an
  unused ticket with that code belongs to an order with a completed payment; it does not
  read the order's status.
\<close>

definition redeem_guard :: "db \<Rightarrow> request \<Rightarrow> ticket \<Rightarrow> bool" where
  "redeem_guard d req t =
     (case req of
        ScanQr u code \<Rightarrow>
          t_ticket_code t = code \<and>
          (\<exists>r \<in> set (orders d). o_id r = t_order_id t \<and> o_status r = ''completed'')
      | TicketsVerify u code \<Rightarrow>
          t_ticket_code t = code \<and>
          (\<exists>t0 \<in> set (tickets d). t_ticket_code t0 = code \<and> \<not> t_is_used t0 \<and>
             (\<exists>p \<in> set (payments d). p_order_id p = t_order_id t0 \<and> p_status p = ''completed''))
      | _ \<Rightarrow> False)"

text \<open>
  The ways one request changes the tickets table: not at all, by deleting rows, by
  marking rows used (where the handler has checked \<open>redeem_guard\<close>), or by appending
  one unused ticket with the next id.
\<close>

definition tickets_step :: "db \<Rightarrow> request \<Rightarrow> db \<Rightarrow> bool" where
  "tickets_step d req d' \<longleftrightarrow>
     (tickets d' = tickets d \<and> next_ticket_id d' = next_ticket_id d)
     \<or> (\<exists>P. tickets d' = delete_where P (tickets d) \<and> next_ticket_id d' = next_ticket_id d)
     \<or> (\<exists>P. tickets d' = update_where P (\<lambda>t. t\<lparr>t_is_used := True\<rparr>) (tickets d)
              \<and> next_ticket_id d' = next_ticket_id d
              \<and> (\<forall>t \<in> set (tickets d). P t \<longrightarrow> redeem_guard d req t))
     \<or> (\<exists>n. tickets d' = tickets d @ [n] \<and> t_id n = next_ticket_id d \<and> \<not> t_is_used n
              \<and> next_ticket_id d' = next_ticket_id d + 1)"

subsection \<open>The specification's reading of the totals and of the signed string\<close>

text \<open>
  The catalogue price of a food in a store (0 when the food is not there), and the
  line item the specification expects for an ordered item: the unit price is the
  catalogue price at the time of the order.
\<close>

definition price_at :: "db \<Rightarrow> nat \<Rightarrow> int" where
  "price_at d fid = (case select_price (foods d) fid of None \<Rightarrow> 0 | Some p \<Rightarrow> p)"


text \<open>
  The signed string as the specification words it: \<open>key=urlencode(value)\<close> joined by
  \<open>&\<close>, where the encoding writes a space as \<open>+\<close> and every other character as
  \<open>encodeURIComponent\<close> does.
\<close>

definition spec_urlencode :: "string \<Rightarrow> string" where
  "spec_urlencode s = concat (map (\<lambda>c. if c = CHR '' '' then ''+'' else encode_char c) s)"

definition spec_sign_data :: "js_object \<Rightarrow> string list \<Rightarrow> string" where
  "spec_sign_data params ks =
     join ''&'' (map (\<lambda>k. k @ ''='' @ spec_urlencode (to_js_string (get params k))) ks)"

subsection \<open>Example requests\<close>

text \<open>
  Concrete requests for the examples below: an admin adds a food at 50000, a customer
  orders two of it. The keyed hash of the examples only tags the signed string with the
  key; it stands in for HMAC-SHA512, which the properties never compute.
\<close>

definition example_cfg :: config where
  "example_cfg = \<lparr>hmac_sha512 = (\<lambda>key data. key @ ''|'' @ data),
     vnpay_return_url = JStr ''http://localhost:3000/api/vnpay/return'',
     vnpay_tmn_code = JStr ''TMN1'', vnpay_hash_secret = ''secret'',
     vnpay_url = ''https://sandbox.vnpayment.vn/paymentv2/vpcpay.html''\<rparr>"

definition admin :: user where
  "admin = \<lparr>u_id = 1, u_role = ''admin''\<rparr>"

definition customer :: user where
  "customer = \<lparr>u_id = 7, u_role = ''customer''\<rparr>"

definition pho :: food_body where
  "pho = \<lparr>fb_name = ''pho'', fb_description = None, fb_price = 50000, fb_img_url = None,
     fb_is_available = None, fb_category_id = 1\<rparr>"

definition two_pho :: "order_line list" where
  "two_pho = [\<lparr>food_id = 1, quantity = 2\<rparr>]"

definition example_env :: payment_env where
  "example_env = \<lparr>pe_ip = ''10.0.0.7'',
     pe_date = \<lparr>getFullYear = 2025, getMonth = 4, getDate = 9, getHours = 8,
                 getMinutes = 5, getSeconds = 30\<rparr>,
     pe_txn_ms = 1700, pe_ticket_ms = 1701, pe_now = 20\<rparr>"

definition payment_of :: "string \<Rightarrow> payment_body" where
  "payment_of method = \<lparr>pb_order_id = 1, pb_method = method, pb_amount = 100000,
     pb_order_desc = None, pb_order_type = None, pb_language = None, pb_bank_code = [],
     pb_txtexpire = [], pb_txt_billing_mobile = [], pb_txt_billing_email = [],
     pb_txt_billing_fullname = ''Nguyen Van An'', pb_txt_inv_addr1 = [], pb_txt_bill_city = [],
     pb_txt_bill_country = [], pb_txt_bill_state = [], pb_txt_inv_mobile = [],
     pb_txt_inv_email = [], pb_txt_inv_customer = [], pb_txt_inv_company = [],
     pb_txt_inv_taxcode = [], pb_cbo_inv_type = []\<rparr>"

definition code1 :: string where
  "code1 = ''a1b2c3d4e5f60718''"

definition ticket1 :: ticket where
  "ticket1 = \<lparr>t_id = 1, t_order_id = 1, t_ticket_code = code1, t_issued_at = 10,
     t_is_used = False\<rparr>"

definition food_db :: db where
  "food_db = run example_cfg [AddFood admin pho] empty_db"

text \<open>A catalogue with one food whose price, ordered that many times, has a total
  beyond \<open>2^53\<close>.\<close>

definition dear_db :: db where
  "dear_db = run example_cfg [AddFood admin (pho\<lparr>fb_price := 94906267\<rparr>)] empty_db"

definition ordered_db :: db where
  "ordered_db = run example_cfg [AddFood admin pho, CreateOrder customer two_pho code1 10] empty_db"

text \<open>The order once the admin has marked it completed, once its ticket has then been
  scanned, once the customer has cancelled it through \<open>DELETE /api/orders/:orderId\<close>,
  once the customer has chosen to pay in cash, once the admin has then confirmed the cash
  payment, and once the customer has started an online payment instead.\<close>

definition completed_db :: db where
  "completed_db = run example_cfg [UpdateOrderStatus admin 1 ''completed''] ordered_db"

definition scanned_db :: db where
  "scanned_db = run example_cfg [ScanQr admin code1] completed_db"

definition cancelled_db :: db where
  "cancelled_db = run example_cfg [SoftCancelOrder customer 1] ordered_db"

definition cash_db :: db where
  "cash_db = run example_cfg [RecordPayment customer (payment_of ''cash'') example_env] ordered_db"

text \<open>The store \<open>cash_db\<close> with the status of its payment set to \<open>status\<close>: cancelled
  as after a declined callback, or failed, a status the purge of the payment handler
  provides for.\<close>

definition payment_status_db :: "string \<Rightarrow> db" where
  "payment_status_db status =
     cash_db\<lparr>payments := map (\<lambda>p. p\<lparr>p_status := status\<rparr>) (payments cash_db)\<rparr>"

definition cash_paid_db :: db where
  "cash_paid_db = run example_cfg [ConfirmPayment admin 1] cash_db"

definition online_db :: db where
  "online_db = run example_cfg [RecordPayment customer (payment_of ''online'') example_env] ordered_db"


definition signature_of :: "js_object \<Rightarrow> js_object" where
  "signature_of params =
     [(''vnp_SecureHashType'', JStr ''HmacSHA512''),
      (''vnp_SecureHash'',
       JStr (createVnpaySignature (hmac_sha512 example_cfg) params
               (vnpay_hash_secret example_cfg) True))]"

text \<open>Callback parameters with the response code \<open>00\<close> and no transaction reference,
  and with a reference that names no order.\<close>

definition unreferenced_params :: js_object where
  "unreferenced_params =
     [(''vnp_Amount'', JStr ''10000000''), (''vnp_ResponseCode'', JStr ''00'')]"

definition misreferenced_params :: js_object where
  "misreferenced_params =
     [(''vnp_TxnRef'', JStr ''ORDER1''), (''vnp_Amount'', JStr ''10000000''),
      (''vnp_ResponseCode'', JStr ''00'')]"

text \<open>Parameters that the two modes of \<open>createVnpaySignature\<close> order differently.\<close>

definition mixed_params :: js_object where
  "mixed_params =
     [(''vnp_Version'', JStr ''2.1.0''), (''vnp_Amount'', JStr ''100''),
      (''vnp_BankCode'', JStr ''NCB''), (''vnp_OrderInfo'', JStr ''a b''),
      (''vnp_SecureHash'', JStr ''zz''), (''vnp_Locale'', JStr [])]"

section \<open>Properties\<close>

lemma filter_delete_where_same [simp]: "filter P (delete_where P rows) = []"
  by (induction rows) (auto simp: delete_where_def)

text \<open>
  C7. A cancellation by the order's owner (the handler's lookup by id and user id
  finds the order): when the order's status is not pending the handler answers
  "Only pending orders can be cancelled" (HTTP 400) and the store is unchanged; when it
  is pending the handler answers success, and afterwards a lookup by that order id finds
  no ticket, no line item, no payment and no order.
\<close>

theorem cancel_order_strict:
  assumes "filter (\<lambda>r. o_id r = orderId \<and> o_user_id r = u_id u) (orders d) = ord # rest"
  shows "(o_status ord \<noteq> ''pending'' \<longrightarrow>
            cancel_order u orderId d = (Inl OnlyPendingCancellable, d)
            \<and> http_status OnlyPendingCancellable = 400)
       \<and> (o_status ord = ''pending'' \<longrightarrow>
            fst (cancel_order u orderId d) = Inr OrderCancelled
            \<and> filter (\<lambda>t. t_order_id t = orderId) (tickets (snd (cancel_order u orderId d))) = []
            \<and> filter (\<lambda>i. oi_order_id i = orderId) (order_items (snd (cancel_order u orderId d))) = []
            \<and> filter (\<lambda>p. p_order_id p = orderId) (payments (snd (cancel_order u orderId d))) = []
            \<and> filter (\<lambda>r. o_id r = orderId) (orders (snd (cancel_order u orderId d))) = [])"
  using assms by (simp add: cancel_order_def Let_def)

theorem cancel_order_strict_witness:
  "cancel_order \<lparr>u_id = 7, u_role = ''customer''\<rparr> 1
     (empty_db\<lparr>orders := [\<lparr>o_id = 1, o_user_id = 7, o_total_price = 100000,
                               o_status = ''confirmed'', o_created_at = 0\<rparr>]\<rparr>)
   = (Inl OnlyPendingCancellable,
      empty_db\<lparr>orders := [\<lparr>o_id = 1, o_user_id = 7, o_total_price = 100000,
                               o_status = ''confirmed'', o_created_at = 0\<rparr>]\<rparr>)
   \<and> fst (cancel_order \<lparr>u_id = 7, u_role = ''customer''\<rparr> 1
        (empty_db\<lparr>orders := [\<lparr>o_id = 1, o_user_id = 7, o_total_price = 100000,
                                  o_status = ''pending'', o_created_at = 0\<rparr>],
                   tickets := [\<lparr>t_id = 1, t_order_id = 1, t_ticket_code = ''ab12'',
                                  t_issued_at = 0, t_is_used = False\<rparr>]\<rparr>)) = Inr OrderCancelled
   \<and> filter (\<lambda>t. t_order_id t = 1) (tickets (snd (cancel_order \<lparr>u_id = 7, u_role = ''customer''\<rparr> 1
        (empty_db\<lparr>orders := [\<lparr>o_id = 1, o_user_id = 7, o_total_price = 100000,
                                  o_status = ''pending'', o_created_at = 0\<rparr>],
                   tickets := [\<lparr>t_id = 1, t_order_id = 1, t_ticket_code = ''ab12'',
                                  t_issued_at = 0, t_is_used = False\<rparr>]\<rparr>)))) = []"
  using
    cancel_order_strict [of 1 "\<lparr>u_id = 7, u_role = ''customer''\<rparr>"
      "empty_db\<lparr>orders := [\<lparr>o_id = 1, o_user_id = 7, o_total_price = 100000,
                               o_status = ''confirmed'', o_created_at = 0\<rparr>]\<rparr>"
      "\<lparr>o_id = 1, o_user_id = 7, o_total_price = 100000,
        o_status = ''confirmed'', o_created_at = 0\<rparr>" "[]"]
    cancel_order_strict [of 1 "\<lparr>u_id = 7, u_role = ''customer''\<rparr>"
      "empty_db\<lparr>orders := [\<lparr>o_id = 1, o_user_id = 7, o_total_price = 100000,
                                  o_status = ''pending'', o_created_at = 0\<rparr>],
                   tickets := [\<lparr>t_id = 1, t_order_id = 1, t_ticket_code = ''ab12'',
                                  t_issued_at = 0, t_is_used = False\<rparr>]\<rparr>"
      "\<lparr>o_id = 1, o_user_id = 7, o_total_price = 100000,
        o_status = ''pending'', o_created_at = 0\<rparr>" "[]"]
  by (simp add: empty_db_def)

subsection \<open>Queries and the example states\<close>


lemma bit_length_eq: "2 ^ k \<le> n \<Longrightarrow> n < 2 ^ Suc k \<Longrightarrow> bit_length n = Suc k"
proof (induction k arbitrary: n)
  case 0
  then have "n = 1" by simp
  then show ?case by (simp add: bit_length.simps)
next
  case (Suc k)
  from Suc.prems have "2 ^ k \<le> n div 2" "n div 2 < 2 ^ Suc k" "n \<noteq> 0" by auto
  with Suc.IH [of "n div 2"] show ?case by (subst bit_length.simps) simp
qed

lemma js_number_exact: "\<bar>x\<bar> < 2 ^ 53 \<Longrightarrow> js_number x = Some x"
proof -
  assume a: "\<bar>x\<bar> < 2 ^ 53"
  have "(2::int) ^ 53 < 2 ^ 1024" by simp
  with a have "\<bar>x\<bar> < 2 ^ 1024" by linarith
  with a show ?thesis by (simp add: js_number_def round_to_double_def)
qed

lemma js_mul_exact: "\<bar>a * b\<bar> < 2 ^ 53 \<Longrightarrow> js_mul a b = Some (a * b)"
  by (simp add: js_mul_def js_number_exact)

lemma js_add_exact: "\<bar>x + y\<bar> < 2 ^ 53 \<Longrightarrow> js_add (Some x) (Some y) = Some (x + y)"
  by (simp add: js_add_def js_number_exact)

lemma reachable_run: "reachable cfg d \<Longrightarrow> reachable cfg (run cfg reqs d)"
  by (induction reqs arbitrary: d) (auto intro: reachable_step)

lemma ordered_db_eq:
  "ordered_db = \<lparr>foods =
     [\<lparr>f_id = 1, f_name = ''pho'', f_description = None, f_price = 50000, f_img_url = None,
         f_is_available = Some True, f_category_id = 1\<rparr>],
     orders = [\<lparr>o_id = 1, o_user_id = 7, o_total_price = 100000, o_status = ''pending'',
                o_created_at = 10\<rparr>],
     order_items = [\<lparr>oi_id = 1, oi_order_id = 1, oi_food_id = 1, oi_quantity = 2,
                     oi_unit_price = 50000\<rparr>],
     payments = [],
     tickets = [\<lparr>t_id = 1, t_order_id = 1, t_ticket_code = code1, t_issued_at = 10,
                 t_is_used = False\<rparr>],
     next_food_id = 2, next_order_id = 2, next_order_item_id = 2, next_payment_id = 1,
     next_ticket_id = 2\<rparr>"
  by (simp add: ordered_db_def empty_db_def add_food_def admin_def customer_def pho_def
      two_pho_def create_order_def select_price_def or_null_def js_mul_exact js_add_exact)

lemma code1_nonempty: "code1 \<noteq> []"
  by (simp add: code1_def)

lemma payment_of_simps:
  "pb_order_id (payment_of m) = 1" "pb_method (payment_of m) = m"
  "pb_amount (payment_of m) = 100000"
  by (simp_all add: payment_of_def)

lemma example_env_simps:
  "pe_now example_env = 20" "pe_ticket_ms example_env = 1701" "pe_txn_ms example_env = 1700"
  by (simp_all add: example_env_def)

lemma record_payment_cash:
  "pb_method b = ''cash'' \<Longrightarrow> record_payment cfg u b env d =
     (if pb_order_id b = 0 \<or> pb_amount b = 0 then (Inl PaymentFieldsRequired, d)
      else if pb_amount b \<le> 0 then (Inl AmountMustBePositive, d)
      else if filter (\<lambda>r. o_id r = pb_order_id b \<and> o_user_id r = u_id u) (orders d) = []
      then (Inl OrderNotFoundOrNotAuthorized, d)
      else (case purge_payments (pb_order_id b) d of
              Inl e \<Rightarrow> (Inl e, d)
            | Inr d1 \<Rightarrow> store_payment b env ''pending'' None None d1))"
  by (simp add: record_payment_def split: sum.splits)

lemmas example_simps =
  ordered_db_eq admin_def customer_def update_where_def delete_where_def code1_nonempty
  update_order_status_def scan_qr_def tickets_join_orders_def soft_cancel_order_def
  confirm_payment_def tickets_verify_def unused_tickets_join_payments_def

lemmas payment_simps =
  record_payment_cash payment_of_simps purge_payments_def store_payment_def example_env_simps
  is_used_default_def

subsection \<open>Redeeming a ticket twice\<close>

lemma tickets_join_orders_map:
  assumes "\<And>t. t_ticket_code (g t) = t_ticket_code t \<and> t_order_id (g t) = t_order_id t"
      and "\<And>r. o_id (f r) = o_id r"
  shows "tickets_join_orders code (d\<lparr>orders := map f (orders d), tickets := map g (tickets d)\<rparr>)
         = map (\<lambda>(t, r). (g t, f r)) (tickets_join_orders code d)"
  using assms by (simp add: tickets_join_orders_def filter_map o_def map_concat)

text \<open>
  C1. When a scan of a ticket code by an admin succeeds, the next scan of the same code
  (by an admin, with no request in between) is rejected with the "code already used"
  message, and the store, so the order and the ticket, is left as the first scan left it.
\<close>

theorem scan_qr_twice:
  assumes "scan_qr u code d = (Inr r, d1)" and "u_role u2 = ''admin''"
  shows "scan_qr u2 code d1 = (Inl CodeAlreadyUsed, d1)"
proof -
  from assms(1) obtain ticket ord rest where
    j: "tickets_join_orders code d = (ticket, ord) # rest" and
    code: "code \<noteq> []" and
    d1: "d1 = d\<lparr>orders := update_where (\<lambda>r. o_id r = t_order_id ticket)
                              (\<lambda>r. r\<lparr>o_status := ''scanned''\<rparr>) (orders d),
                tickets := update_where (\<lambda>x. t_id x = t_id ticket)
                              (\<lambda>x. x\<lparr>t_is_used := True\<rparr>) (tickets d)\<rparr>"
    by (auto simp: scan_qr_def Let_def split: if_splits list.splits)
  have "tickets_join_orders code d1 =
      map (\<lambda>(t, r). (if t_id t = t_id ticket then t\<lparr>t_is_used := True\<rparr> else t,
                      if o_id r = t_order_id ticket then r\<lparr>o_status := ''scanned''\<rparr> else r))
        (tickets_join_orders code d)"
    unfolding d1 update_where_def by (rule tickets_join_orders_map) auto
  then show ?thesis using j assms(2) code by (simp add: scan_qr_def)
qed

theorem scan_qr_twice_witness:
  "fst (scan_qr admin code1 completed_db) = Inr ScanConfirmed
   \<and> scan_qr admin code1 (snd (scan_qr admin code1 completed_db))
       = (Inl CodeAlreadyUsed, snd (scan_qr admin code1 completed_db))"
proof -
  have first: "scan_qr admin code1 completed_db
                 = (Inr ScanConfirmed, snd (scan_qr admin code1 completed_db))"
    by (simp add: completed_db_def example_simps)
  have "u_role admin = ''admin''" by (simp add: admin_def)
  from scan_qr_twice [OF first this] first show ?thesis by (metis fst_conv)
qed

subsection \<open>The gateway's callback\<close>











lemma txn_ref_example: "txn_ref (Suc 0) 1700 = ''ORDER_1_1700''"
  by code_simp

lemma online_db_tables:
  "payments online_db = [\<lparr>p_payment_id = 1, p_order_id = 1, p_method = ''online'',
      p_amount = 100000, p_status = ''pending'', p_transaction_id = Some ''ORDER_1_1700'',
      p_created_at = 20\<rparr>]"
  "orders online_db = [\<lparr>o_id = 1, o_user_id = 7, o_total_price = 100000,
      o_status = ''pending'', o_created_at = 10\<rparr>]"
  by (simp_all add: online_db_def ordered_db_eq record_payment_def payment_of_simps customer_def
      purge_payments_def store_payment_def example_env_simps txn_ref_example)






text \<open>
  C3, as the claim states it, fails on the code. A callback with a valid signature and
  the response code \<open>00\<close> that carries no \<open>vnp_TxnRef\<close> makes the handler throw on
  \<open>vnpParams.vnp_TxnRef.split\<close>: the answer is 500 and the pending payment and order
  stay pending. With a reference that has no second field (\<open>ORDER1\<close>) the handler
  redirects to the success page and changes no row.
\<close>

theorem vnpay_return_without_order:
  "get (unreferenced_params @ signature_of unreferenced_params) ''vnp_SecureHash''
     = JStr (createVnpaySignature (hmac_sha512 example_cfg)
               (delete_key ''vnp_SecureHashType'' (delete_key ''vnp_SecureHash''
                  (unreferenced_params @ signature_of unreferenced_params)))
               (vnpay_hash_secret example_cfg) True)
   \<and> get (unreferenced_params @ signature_of unreferenced_params) ''vnp_ResponseCode'' = JStr ''00''
   \<and> vnpay_return example_cfg (unreferenced_params @ signature_of unreferenced_params) online_db
       = (Inl ServerError, online_db)
   \<and> get (misreferenced_params @ signature_of misreferenced_params) ''vnp_SecureHash''
     = JStr (createVnpaySignature (hmac_sha512 example_cfg)
               (delete_key ''vnp_SecureHashType'' (delete_key ''vnp_SecureHash''
                  (misreferenced_params @ signature_of misreferenced_params)))
               (vnpay_hash_secret example_cfg) True)
   \<and> get (misreferenced_params @ signature_of misreferenced_params) ''vnp_ResponseCode'' = JStr ''00''
   \<and> fst (vnpay_return example_cfg (misreferenced_params @ signature_of misreferenced_params) online_db)
       = Inr (RedirectTo ''http://localhost:3001/orders?payment=success'')
   \<and> snd (vnpay_return example_cfg (misreferenced_params @ signature_of misreferenced_params) online_db)
       = online_db
   \<and> map p_status (payments online_db) = [''pending'']
   \<and> map o_status (orders online_db) = [''pending'']"
proof -
  let ?bare = "unreferenced_params @ signature_of unreferenced_params"
  let ?mis = "misreferenced_params @ signature_of misreferenced_params"
  have sig_bare: "get ?bare ''vnp_SecureHash''
     = JStr (createVnpaySignature (hmac_sha512 example_cfg)
               (delete_key ''vnp_SecureHashType'' (delete_key ''vnp_SecureHash'' ?bare))
               (vnpay_hash_secret example_cfg) True)"
    by code_simp
  have sig_mis: "get ?mis ''vnp_SecureHash''
     = JStr (createVnpaySignature (hmac_sha512 example_cfg)
               (delete_key ''vnp_SecureHashType'' (delete_key ''vnp_SecureHash'' ?mis))
               (vnpay_hash_secret example_cfg) True)"
    by code_simp
  have code: "get ?bare ''vnp_ResponseCode'' = JStr ''00''" "get ?mis ''vnp_ResponseCode'' = JStr ''00''"
    by code_simp+
  have ref: "get (delete_key ''vnp_SecureHashType'' (delete_key ''vnp_SecureHash'' ?bare)) ''vnp_TxnRef''
               = JUndefined"
    "get (delete_key ''vnp_SecureHashType'' (delete_key ''vnp_SecureHash'' ?mis)) ''vnp_TxnRef''
               = JStr ''ORDER1''"
    "get (delete_key ''vnp_SecureHashType'' (delete_key ''vnp_SecureHash'' ?mis)) ''vnp_ResponseCode''
               = JStr ''00''"
    by code_simp+
  have none: "txn_order_id ''ORDER1'' = None" by code_simp
  have bare: "vnpay_return example_cfg ?bare online_db = (Inl ServerError, online_db)"
    using sig_bare ref(1) by (simp add: vnpay_return_def Let_def)
  have same: "update_where (\<lambda>x. False) f rows = rows" for f :: "'a \<Rightarrow> 'a" and rows
    by (induction rows) (simp_all add: update_where_def)
  have mis: "vnpay_return example_cfg ?mis online_db
       = (Inr (RedirectTo ''http://localhost:3001/orders?payment=success''), online_db)"
    using sig_mis ref(2,3) by (simp add: vnpay_return_def Let_def none same)
  from sig_bare sig_mis code bare mis show ?thesis
    by (simp add: online_db_tables)
qed



subsection \<open>Paying in cash\<close>

lemma store_payment_orders:
  "orders (snd (store_payment b env st tx url d)) =
     (if pb_method b = ''cash''
      then update_where (\<lambda>r. o_id r = pb_order_id b) (\<lambda>r. r\<lparr>o_status := ''confirmed''\<rparr>) (orders d)
      else orders d)"
  by (simp add: store_payment_def Let_def)

lemma purge_payments_orders: "purge_payments oid d = Inr d1 \<Longrightarrow> orders d1 = orders d"
  by (auto simp: purge_payments_def split: list.splits if_splits)

text \<open>
  C10. When a cash payment is recorded successfully, the orders table afterwards is the
  table before with the status of the paid order set to confirmed, whatever the status
  was: every order row of that id has status confirmed, and the caller's order is among
  them. The examples show an order that was cancelled, completed or scanned before the
  request and is confirmed after it.
\<close>

theorem record_payment_cash_confirms:
  assumes "pb_method b = ''cash''" and "fst (record_payment cfg u b env d) = Inr r"
  shows "orders (snd (record_payment cfg u b env d))
           = update_where (\<lambda>r. o_id r = pb_order_id b) (\<lambda>r. r\<lparr>o_status := ''confirmed''\<rparr>) (orders d)
         \<and> (\<forall>ord \<in> set (orders (snd (record_payment cfg u b env d))).
               o_id ord = pb_order_id b \<longrightarrow> o_status ord = ''confirmed'')
         \<and> (\<exists>ord \<in> set (orders (snd (record_payment cfg u b env d))).
               o_id ord = pb_order_id b \<and> o_user_id ord = u_id u)"
proof -
  from assms obtain d1 where
    own: "filter (\<lambda>r. o_id r = pb_order_id b \<and> o_user_id r = u_id u) (orders d) \<noteq> []" and
    p: "purge_payments (pb_order_id b) d = Inr d1" and
    rp: "record_payment cfg u b env d = store_payment b env ''pending'' None None d1"
    by (auto simp: record_payment_cash split: if_splits sum.splits)
  have eq: "orders (snd (record_payment cfg u b env d))
           = update_where (\<lambda>r. o_id r = pb_order_id b) (\<lambda>r. r\<lparr>o_status := ''confirmed''\<rparr>) (orders d)"
    using assms(1) p by (simp add: rp store_payment_orders purge_payments_orders)
  have all: "\<forall>ord \<in> set (update_where (\<lambda>r. o_id r = pb_order_id b)
                 (\<lambda>r. r\<lparr>o_status := ''confirmed''\<rparr>) (orders d)).
               o_id ord = pb_order_id b \<longrightarrow> o_status ord = ''confirmed''"
    by (auto simp: update_where_def)
  from own obtain ord where ord: "ord \<in> set (orders d)" "o_id ord = pb_order_id b"
    "o_user_id ord = u_id u"
    by (auto simp: filter_empty_conv)
  then have "ord\<lparr>o_status := ''confirmed''\<rparr> \<in> set (update_where (\<lambda>r. o_id r = pb_order_id b)
                 (\<lambda>r. r\<lparr>o_status := ''confirmed''\<rparr>) (orders d))"
    by (force simp: update_where_def)
  then have ex: "\<exists>x \<in> set (update_where (\<lambda>r. o_id r = pb_order_id b)
                 (\<lambda>r. r\<lparr>o_status := ''confirmed''\<rparr>) (orders d)).
               o_id x = pb_order_id b \<and> o_user_id x = u_id u"
    using ord by (intro bexI [of _ "ord\<lparr>o_status := ''confirmed''\<rparr>"]) simp_all
  from eq all ex show ?thesis by simp
qed

lemma example_orders:
  "orders cancelled_db
     = [\<lparr>o_id = 1, o_user_id = 7, o_total_price = 100000, o_status = ''cancelled'', o_created_at = 10\<rparr>]"
  "orders completed_db
     = [\<lparr>o_id = 1, o_user_id = 7, o_total_price = 100000, o_status = ''completed'', o_created_at = 10\<rparr>]"
  "orders scanned_db
     = [\<lparr>o_id = 1, o_user_id = 7, o_total_price = 100000, o_status = ''scanned'', o_created_at = 10\<rparr>]"
  by code_simp+

theorem record_payment_cash_confirms_witness:
  "map o_status (orders cancelled_db) = [''cancelled'']
   \<and> map o_status (orders (snd (record_payment example_cfg customer (payment_of ''cash'') example_env
         cancelled_db))) = [''confirmed'']
   \<and> map o_status (orders completed_db) = [''completed'']
   \<and> map o_status (orders (snd (record_payment example_cfg customer (payment_of ''cash'') example_env
         completed_db))) = [''confirmed'']
   \<and> map o_status (orders scanned_db) = [''scanned'']
   \<and> map o_status (orders (snd (record_payment example_cfg customer (payment_of ''cash'') example_env
         scanned_db))) = [''confirmed'']"
proof -
  let ?pay = "\<lambda>d. record_payment example_cfg customer (payment_of ''cash'') example_env d"
  have cash: "pb_method (payment_of ''cash'') = ''cash''" by (simp add: payment_of_simps)
  have a: "fst (?pay cancelled_db)
             = Inr (PaymentCreated 1 ''pending'' None None)"
    by code_simp
  have b: "fst (?pay completed_db) = Inr (PaymentCreated 1 ''pending'' None None)"
    by code_simp
  have c: "fst (?pay scanned_db)
             = Inr (PaymentCreated 1 ''pending'' None None)"
    by code_simp
  from record_payment_cash_confirms [OF cash a] record_payment_cash_confirms [OF cash b]
       record_payment_cash_confirms [OF cash c]
  show ?thesis
    by (simp add: example_orders payment_of_simps update_where_def)
qed

subsection \<open>Placing an order\<close>

lemma price_items_found:
  "price_items fs items t acc = Inr (total_price, priced) \<Longrightarrow>
     (\<forall>item \<in> set items. select_price fs (food_id item) \<noteq> None)
     \<and> priced = acc @ map (\<lambda>item. (item, case select_price fs (food_id item) of None \<Rightarrow> 0 | Some p \<Rightarrow> p)) items"
  by (induction fs items t acc rule: price_items.induct) (auto split: option.splits)


lemma price_items_failure:
  "price_items fs items t acc = Inl e \<Longrightarrow>
     \<exists>item \<in> set items. select_price fs (food_id item) = None \<and> e = FoodWithIdNotFound (food_id item)"
  by (induction fs items t acc rule: price_items.induct) (auto split: option.splits)

lemma price_items_unknown:
  "\<exists>item \<in> set items. select_price fs (food_id item) = None \<Longrightarrow>
     \<exists>e. price_items fs items t acc = Inl e"
  by (induction fs items t acc rule: price_items.induct) (auto split: option.splits)

lemma insert_order_items_tables:
  "orders (insert_order_items oid priced d) = orders d"
  "tickets (insert_order_items oid priced d) = tickets d"
  "payments (insert_order_items oid priced d) = payments d"
  "foods (insert_order_items oid priced d) = foods d"
  "next_ticket_id (insert_order_items oid priced d) = next_ticket_id d"
  "next_order_id (insert_order_items oid priced d) = next_order_id d"
  "next_payment_id (insert_order_items oid priced d) = next_payment_id d"
  "next_food_id (insert_order_items oid priced d) = next_food_id d"
  by (induction oid priced d rule: insert_order_items.induct) auto



lemma food_db_eq:
  "food_db = \<lparr>foods =
     [\<lparr>f_id = 1, f_name = ''pho'', f_description = None, f_price = 50000, f_img_url = None,
         f_is_available = Some True, f_category_id = 1\<rparr>],
     orders = [], order_items = [], payments = [], tickets = [],
     next_food_id = 2, next_order_id = 1, next_order_item_id = 1, next_payment_id = 1,
     next_ticket_id = 1\<rparr>"
  by (simp add: food_db_def empty_db_def add_food_def admin_def pho_def or_null_def)

lemma dear_db_eq:
  "dear_db = \<lparr>foods =
     [\<lparr>f_id = 1, f_name = ''pho'', f_description = None, f_price = 94906267, f_img_url = None,
         f_is_available = Some True, f_category_id = 1\<rparr>],
     orders = [], order_items = [], payments = [], tickets = [],
     next_food_id = 2, next_order_id = 1, next_order_item_id = 1, next_payment_id = 1,
     next_ticket_id = 1\<rparr>"
  by (simp add: dear_db_def empty_db_def add_food_def admin_def pho_def or_null_def)

lemma round_to_double_example:
  "js_mul 94906267 94906267 = Some 9007199515875288"
  "js_add (Some 0) (Some 9007199515875288) = Some 9007199515875288"
proof -
  have b1: "bit_length 9007199515875289 = 54"
    using bit_length_eq [of 53 9007199515875289] by simp
  have b2: "bit_length 9007199515875288 = 54"
    using bit_length_eq [of 53 9007199515875288] by simp
  show "js_mul 94906267 94906267 = Some 9007199515875288"
    by (simp add: js_mul_def js_number_def round_to_double_def Let_def b1)
  show "js_add (Some 0) (Some 9007199515875288) = Some 9007199515875288"
    by (simp add: js_add_def js_number_def round_to_double_def Let_def b2)
qed

text \<open>
  C5, as the claim states it, fails on the code: the total is computed in JavaScript
  numbers. With a food at 94906267 ordered 94906267 times the handler answers and stores
  9007199515875288, while the sum of price times quantity is 9007199515875289.
\<close>

theorem create_order_total_rounded:
  "fst (create_order customer [\<lparr>food_id = 1, quantity = 94906267\<rparr>] code1 10 dear_db)
     = Inr (OrderCreated 1 9007199515875288 ''pending'' code1)
   \<and> map o_total_price
        (orders (snd (create_order customer [\<lparr>food_id = 1, quantity = 94906267\<rparr>] code1 10 dear_db)))
     = [9007199515875288]
   \<and> (\<Sum>item\<leftarrow>[\<lparr>food_id = 1, quantity = 94906267\<rparr>]. price_at dear_db (food_id item) * quantity item)
     = 9007199515875289"
  by (simp add: dear_db_eq create_order_def select_price_def price_at_def customer_def
      round_to_double_example)



text \<open>
  The rejections of the handler: an empty item list is answered "Items are required"
  (400) and an item whose food is not in the catalogue "Food with id ... not found"
  (404); in both cases the store is unchanged.
\<close>

lemma create_order_rejections:
  "create_order u [] code now d = (Inl ItemsRequired, d)"
  "\<exists>item \<in> set items. select_price (foods d) (food_id item) = None \<Longrightarrow>
     \<exists>fid. create_order u items code now d = (Inl (FoodWithIdNotFound fid), d)
           \<and> select_price (foods d) fid = None"
proof -
  show "create_order u [] code now d = (Inl ItemsRequired, d)"
    by (simp add: create_order_def)
next
  assume a: "\<exists>item \<in> set items. select_price (foods d) (food_id item) = None"
  then have ne: "items \<noteq> []" by auto
  from price_items_unknown [OF a] obtain e where e: "price_items (foods d) items (Some 0) [] = Inl e"
    by blast
  from price_items_failure [OF e] obtain item :: order_line where
    "select_price (foods d) (food_id item) = None" "e = FoodWithIdNotFound (food_id item)"
    by auto
  with e ne show "\<exists>fid. create_order u items code now d = (Inl (FoodWithIdNotFound fid), d)
           \<and> select_price (foods d) fid = None"
    by (auto simp: create_order_def)
qed

text \<open>
  C8. The claim asks for a validation error when an item's quantity is not positive.
  The handler of the server with the payment gateway has no such check: with food 1 at
  50000 in the catalogue, the items \<open>[{food_id: 1, quantity: -2}]\<close> are accepted, and an
  order with the total -100000, its line item with quantity -2 and its ticket are
  created. The handler of the older server in the same file rejects the same request,
  and every request with a non-positive quantity or an unknown food, with status 400 and
  the store unchanged.
\<close>

theorem create_order_accepts_nonpositive_quantity:
  "create_order customer [\<lparr>food_id = 1, quantity = - 2\<rparr>] code1 10 food_db
     = (Inr (OrderCreated 1 (- 100000) ''pending'' code1),
        food_db\<lparr>orders := [\<lparr>o_id = 1, o_user_id = 7, o_total_price = - 100000,
                               o_status = ''pending'', o_created_at = 10\<rparr>],
                 order_items := [\<lparr>oi_id = 1, oi_order_id = 1, oi_food_id = 1, oi_quantity = - 2,
                                    oi_unit_price = 50000\<rparr>],
                 tickets := [\<lparr>t_id = 1, t_order_id = 1, t_ticket_code = code1, t_issued_at = 10,
                                t_is_used = False\<rparr>],
                 next_order_id := 2, next_order_item_id := 2, next_ticket_id := 2\<rparr>)"
  by (simp add: food_db_eq create_order_def select_price_def customer_def js_mul_exact
      js_add_exact)

lemma create_order_v1_rejects_nonpositive_quantity:
  "create_order_v1 customer [\<lparr>food_id = 1, quantity = - 2\<rparr>] code1 10 food_db
     = (Inl ItemNeedsFoodAndQuantity, food_db)"
  by (simp add: create_order_v1_def)

lemma total_price_v1_rejects:
  "\<exists>item \<in> set items. quantity item \<le> 0 \<or> select_price fs (food_id item) = None \<Longrightarrow>
     \<exists>e. total_price_v1 fs items t = Inl e \<and> http_status e = 400"
  by (induction fs items t rule: total_price_v1.induct) (auto split: option.splits)

lemma create_order_v1_validates:
  assumes "items = [] \<or> (\<exists>item \<in> set items. quantity item \<le> 0 \<or> select_price (foods d) (food_id item) = None)"
  shows "\<exists>e. create_order_v1 u items code now d = (Inl e, d) \<and> http_status e = 400"
proof (cases "items = []")
  case True
  then show ?thesis by (simp add: create_order_v1_def)
next
  case False
  with assms obtain e where "total_price_v1 (foods d) items (Some 0) = Inl e" "http_status e = 400"
    using total_price_v1_rejects [of items "foods d" "Some 0"] by auto
  with False show ?thesis by (simp add: create_order_v1_def)
qed

subsection \<open>The signed string\<close>

lemma hex_digit_cases:
  "n < 16 \<Longrightarrow> hex_digit n \<in> set ''0123456789ABCDEF''"
  unfolding hex_digit_def by (rule nth_mem) simp

lemma hex_digit_not_pct: "n < 16 \<Longrightarrow> hex_digit n \<noteq> CHR ''%''"
  using hex_digit_cases [of n] by auto

lemma hex_digit_2: "n < 16 \<Longrightarrow> hex_digit n = CHR ''2'' \<longleftrightarrow> n = 2"
  unfolding hex_digit_def
  by (auto simp: nth_Cons' less_Suc_eq numeral_eq_Suc split: if_splits)

lemma hex_digit_0: "n < 16 \<Longrightarrow> hex_digit n = CHR ''0'' \<longleftrightarrow> n = 0"
  unfolding hex_digit_def
  by (auto simp: nth_Cons' less_Suc_eq numeral_eq_Suc split: if_splits)

lemma of_char_less_256: "(of_char c :: nat) < 256"
  by (cases c) simp

lemma replace_pct20_plain: "a \<noteq> CHR ''%'' \<Longrightarrow> replace_pct20 (a # s) = a # replace_pct20 s"
  by (cases s rule: replace_pct20.cases) (auto)

lemma unreserved_not_pct: "unreserved c \<Longrightarrow> c \<noteq> CHR ''%'' \<and> c \<noteq> CHR '' ''"
  by (auto simp: unreserved_def)

lemma space_not_unreserved: "\<not> unreserved CHR '' ''"
  by (simp add: unreserved_def)

lemma of_char_space: "(of_char c :: nat) = 32 \<longleftrightarrow> c = CHR '' ''"
proof
  assume "(of_char c :: nat) = 32"
  then have "(of_char c :: nat) = of_char CHR '' ''" by simp
  then show "c = CHR '' ''" by (simp only: of_char_eq_iff)
qed simp

lemma replace_pct20_encode_char:
  "replace_pct20 (encode_char c @ s) =
     (if c = CHR '' '' then ''+'' else encode_char c) @ replace_pct20 s"
proof (cases "unreserved c")
  case True
  then show ?thesis
    using unreserved_not_pct [OF True] by (simp add: encode_char_def replace_pct20_plain)
next
  case False
  let ?n = "of_char c :: nat"
  have hi: "?n div 16 < 16" and lo: "?n mod 16 < 16"
    using of_char_less_256 [of c] by arith+
  have sp: "(?n div 16 = 2 \<and> ?n mod 16 = 0) \<longleftrightarrow> c = CHR '' ''"
    using of_char_space [of c] by auto
  show ?thesis
  proof (cases "c = CHR '' ''")
    case True
    then show ?thesis using False sp hi lo
      by (simp add: encode_char_def hex_digit_2 hex_digit_0 space_not_unreserved)
  next
    case ns: False
    then have "\<not> (hex_digit (?n div 16) = CHR ''2'' \<and> hex_digit (?n mod 16) = CHR ''0'')"
      using sp hi lo by (simp add: hex_digit_2 hex_digit_0)
    then show ?thesis using False ns hi lo
      by (auto simp: encode_char_def replace_pct20_plain hex_digit_not_pct)
  qed
qed

lemma replace_pct20_encodeURIComponent:
  "replace_pct20 (encodeURIComponent s) = spec_urlencode s"
  by (induction s) (simp_all add: encodeURIComponent_def spec_urlencode_def replace_pct20_encode_char)

lemma serialize_spec: "serialize params ks = spec_sign_data params ks"
  by (simp add: serialize_def spec_sign_data_def key_value_def [abs_def] replace_pct20_encodeURIComponent)

lemma callback_keys_set:
  "set (callback_keys params) =
     {k \<in> set (object_keys params). k \<noteq> ''vnp_SecureHash'' \<and> k \<noteq> ''vnp_SecureHashType''
        \<and> get params k \<noteq> JStr [] \<and> get params k \<noteq> JNull}"
  by (auto simp: callback_keys_def)

lemma callback_keys_sorted: "sorted (callback_keys params)"
  by (simp add: callback_keys_def)

lemma callback_keys_distinct: "distinct (object_keys params) \<Longrightarrow> distinct (callback_keys params)"
  by (simp add: callback_keys_def)

text \<open>
  C9. In callback mode the signature is the keyed hash of the string the specification
  describes, over the keys of the parameters that are not a signature field and whose
  value is neither empty nor null, in ascending lexicographic order (the list is sorted,
  has those keys, and has each once when the object does). In request mode it is the
  keyed hash of the same serialisation over the keys of the fixed list that have a
  value, in the order of the fixed list. A space is written \<open>+\<close> in both.
\<close>

theorem createVnpaySignature_serialization:
  "createVnpaySignature hmac params secretKey True
     = hmac secretKey (spec_sign_data params (callback_keys params))
   \<and> sorted (callback_keys params)
   \<and> (distinct (object_keys params) \<longrightarrow> distinct (callback_keys params))
   \<and> set (callback_keys params) =
        {k \<in> set (object_keys params). k \<noteq> ''vnp_SecureHash'' \<and> k \<noteq> ''vnp_SecureHashType''
           \<and> get params k \<noteq> JStr [] \<and> get params k \<noteq> JNull}
   \<and> createVnpaySignature hmac params secretKey False
     = hmac secretKey (spec_sign_data params (filter (present params) vnp_request_keys))"
  by (simp add: createVnpaySignature_def serialize_spec callback_keys_sorted
      callback_keys_distinct callback_keys_set)

theorem createVnpaySignature_serialization_witness:
  "distinct (object_keys mixed_params)
   \<and> createVnpaySignature (hmac_sha512 example_cfg) mixed_params ''secret'' True
       = ''secret|vnp_Amount=100&vnp_BankCode=NCB&vnp_OrderInfo=a+b&vnp_Version=2.1.0''
   \<and> createVnpaySignature (hmac_sha512 example_cfg) mixed_params ''secret'' False
       = ''secret|vnp_Amount=100&vnp_OrderInfo=a+b&vnp_Version=2.1.0&vnp_BankCode=NCB''
   \<and> distinct (callback_keys mixed_params)"
proof -
  have d: "distinct (object_keys mixed_params)" by code_simp
  have cb: "spec_sign_data mixed_params (callback_keys mixed_params)
              = ''vnp_Amount=100&vnp_BankCode=NCB&vnp_OrderInfo=a+b&vnp_Version=2.1.0''"
    by code_simp
  have rq: "spec_sign_data mixed_params (filter (present mixed_params) vnp_request_keys)
              = ''vnp_Amount=100&vnp_OrderInfo=a+b&vnp_Version=2.1.0&vnp_BankCode=NCB''"
    by code_simp
  from createVnpaySignature_serialization [of "hmac_sha512 example_cfg" mixed_params "''secret''"]
       d cb rq
  show ?thesis by (simp add: example_cfg_def)
qed

subsection \<open>One payment per order\<close>

lemma payments_inv_empty: "payments_inv empty_db"
  by (simp add: payments_inv_def empty_db_def)

lemma distinct_map_update_where:
  "(\<And>r. k (f r) = k r) \<Longrightarrow> map k (update_where P f rows) = map k rows"
  by (induction rows) (auto simp: update_where_def)

lemma distinct_map_delete_where:
  "distinct (map k rows) \<Longrightarrow> distinct (map k (delete_where P rows))"
  by (simp add: delete_where_def distinct_map_filter)

lemma payments_inv_status_update:
  assumes "payments_inv d" and "st = ''pending'' \<or> st = ''completed'' \<or> st = ''cancelled''"
  shows "payments_inv (d\<lparr>payments := update_where P (\<lambda>p. p\<lparr>p_status := st\<rparr>) (payments d)\<rparr>)"
proof -
  have "map p_order_id (update_where P (\<lambda>p. p\<lparr>p_status := st\<rparr>) (payments d))
          = map p_order_id (payments d)"
    by (rule distinct_map_update_where) simp
  moreover have "list_all (\<lambda>p. p_status p = ''pending'' \<or> p_status p = ''completed''
                      \<or> p_status p = ''cancelled'')
                   (update_where P (\<lambda>p. p\<lparr>p_status := st\<rparr>) (payments d))"
    using assms by (auto simp: payments_inv_def update_where_def list_all_iff)
  ultimately show ?thesis using assms(1) by (simp add: payments_inv_def)
qed

lemma payments_inv_delete:
  "payments_inv d \<Longrightarrow> payments_inv (d\<lparr>payments := delete_where P (payments d)\<rparr>)"
  by (auto simp: payments_inv_def distinct_map_filter list_all_iff delete_where_def)

lemma payments_inv_cong: "payments d' = payments d \<Longrightarrow> payments_inv d' = payments_inv d"
  by (simp add: payments_inv_def)

lemma purge_payments_inv:
  assumes "payments_inv d" and "purge_payments oid d = Inr d1"
  shows "payments d1 = delete_where (\<lambda>p. p_order_id p = oid) (payments d)"
    and "orders d1 = orders d" and "tickets d1 = tickets d"
    and "next_payment_id d1 = next_payment_id d" and "next_ticket_id d1 = next_ticket_id d"
proof -
  show "payments d1 = delete_where (\<lambda>p. p_order_id p = oid) (payments d)"
  proof (cases "filter (\<lambda>p. p_order_id p = oid) (payments d)")
    case Nil
    then have "filter (\<lambda>p. \<not> p_order_id p = oid) (payments d) = payments d"
      by (auto simp: filter_empty_conv filter_id_conv)
    with Nil assms(2) show ?thesis by (simp add: purge_payments_def delete_where_def)
  next
    case (Cons p ps)
    then have "p \<in> set (filter (\<lambda>p. p_order_id p = oid) (payments d))" by simp
    then have "p \<in> set (payments d)" by simp
    with assms(1) have "p_status p = ''pending'' \<or> p_status p = ''completed'' \<or> p_status p = ''cancelled''"
      by (auto simp: payments_inv_def list_all_iff)
    with Cons assms(2) show ?thesis
      by (auto simp: purge_payments_def split: if_splits)
  qed
  show "orders d1 = orders d" "tickets d1 = tickets d"
    "next_payment_id d1 = next_payment_id d" "next_ticket_id d1 = next_ticket_id d"
    using assms(2) by (auto simp: purge_payments_def split: list.splits if_splits)
qed

lemma store_payment_payments:
  "payments (snd (store_payment b env st tx url d)) =
     payments d @ [\<lparr>p_payment_id = next_payment_id d, p_order_id = pb_order_id b,
                    p_method = pb_method b, p_amount = pb_amount b, p_status = st,
                    p_transaction_id = tx, p_created_at = pe_now env\<rparr>]"
  by (simp add: store_payment_def Let_def)

lemma store_payment_reply:
  "fst (store_payment b env st tx url d) = Inr (PaymentCreated (next_payment_id d) st tx url)"
  by (simp add: store_payment_def Let_def)

lemma record_payment_payments_inv:
  assumes "payments_inv d"
  shows "payments_inv (snd (record_payment cfg u b env d))"
proof -
  { fix d1 st tx url
    assume p: "purge_payments (pb_order_id b) d = Inr d1" and st: "st = ''pending''"
    note eq = purge_payments_inv(1) [OF assms p]
    have "payments_inv (snd (store_payment b env st tx url d1))"
      using assms st
      by (auto simp: payments_inv_def store_payment_payments eq delete_where_def list_all_iff
          distinct_map_filter)
  } note stored = this
  { fix d1
    assume p: "purge_payments (pb_order_id b) d = Inr d1"
    have "payments_inv d1"
      using payments_inv_delete [OF assms, of "\<lambda>p. p_order_id p = pb_order_id b"]
        purge_payments_inv(1) [OF assms p]
      by (simp add: payments_inv_def)
  } note purged = this
  show ?thesis
    using assms stored purged
    by (auto simp: record_payment_def Let_def split: sum.splits)
qed

lemma unchanged_payments:
  "payments (snd (add_food u fb d)) = payments d"
  "payments (snd (update_food u fid fb d)) = payments d"
  "payments (snd (delete_food u fid d)) = payments d"
  "payments (snd (tickets_verify u code d)) = payments d"
  "payments (snd (update_order_status u oid st d)) = payments d"
  "payments (snd (scan_qr u code d)) = payments d"
  "payments (snd (soft_cancel_order u oid d)) = payments d"
  "payments (snd (create_order u items code now d)) = payments d"
  by (auto simp: add_food_def update_food_def delete_food_def tickets_verify_def
      update_order_status_def scan_qr_def soft_cancel_order_def create_order_def Let_def
      insert_order_items_tables split: list.splits sum.splits option.splits)

lemma confirm_payment_payments_inv:
  assumes "payments_inv d"
  shows "payments_inv (snd (confirm_payment u pid d))"
  using assms payments_inv_status_update [OF assms, of "''completed''"]
  by (simp add: confirm_payment_def split: list.splits)

lemma vnpay_return_payments_inv:
  assumes "payments_inv d"
  shows "payments_inv (snd (vnpay_return cfg query d))"
proof -
  have a: "\<And>P. payments_inv (d\<lparr>payments := update_where P (\<lambda>p. p\<lparr>p_status := ''completed''\<rparr>) (payments d)\<rparr>)"
    by (rule payments_inv_status_update [OF assms]) simp
  have b: "\<And>P. payments_inv (d\<lparr>payments := update_where P (\<lambda>p. p\<lparr>p_status := ''cancelled''\<rparr>) (payments d)\<rparr>)"
    by (rule payments_inv_status_update [OF assms]) simp
  have c: "\<And>P Q f. payments_inv (d\<lparr>payments := update_where P (\<lambda>p. p\<lparr>p_status := ''completed''\<rparr>) (payments d),
                                     orders := Q\<rparr>)"
    using a by (simp add: payments_inv_def)
  show ?thesis
    using assms a b c by (simp add: vnpay_return_def Let_def split: jsval.splits)
qed

lemma cancel_order_payments_inv:
  assumes "payments_inv d"
  shows "payments_inv (snd (cancel_order u oid d))"
proof -
  have "payments_inv (d\<lparr>payments := delete_where (\<lambda>p. p_order_id p = oid) (payments d)\<rparr>)"
    by (rule payments_inv_delete [OF assms])
  then show ?thesis using assms
    by (simp add: cancel_order_def Let_def payments_inv_def split: list.splits)
qed

lemma handle_payments_inv:
  assumes "payments_inv d"
  shows "payments_inv (snd (handle cfg req d))"
  using assms
  by (cases req)
     (simp_all add: record_payment_payments_inv confirm_payment_payments_inv
        vnpay_return_payments_inv cancel_order_payments_inv
        payments_inv_cong [OF unchanged_payments(1)] payments_inv_cong [OF unchanged_payments(2)]
        payments_inv_cong [OF unchanged_payments(3)] payments_inv_cong [OF unchanged_payments(4)]
        payments_inv_cong [OF unchanged_payments(5)] payments_inv_cong [OF unchanged_payments(6)]
        payments_inv_cong [OF unchanged_payments(7)] payments_inv_cong [OF unchanged_payments(8)])

lemma reachable_payments_inv: "reachable cfg d \<Longrightarrow> payments_inv d"
  by (induction rule: reachable.induct) (auto intro: payments_inv_empty handle_payments_inv)

lemma distinct_key_filter:
  "distinct (map k xs) \<Longrightarrow> x \<in> set xs \<Longrightarrow> filter (\<lambda>y. k y = k x) xs = [x]"
proof (induction xs)
  case Nil
  then show ?case by simp
next
  case (Cons a xs)
  show ?case
  proof (cases "a = x")
    case True
    with Cons.prems have "filter (\<lambda>y. k y = k x) xs = []"
      by (auto simp: filter_empty_conv image_iff)
    with True show ?thesis by simp
  next
    case False
    with Cons.prems have "x \<in> set xs" "k a \<noteq> k x" by (auto simp: image_iff)
    with Cons show ?thesis by simp
  qed
qed

lemma distinct_key_at_most_one:
  "distinct (map k xs) \<Longrightarrow> length (filter (\<lambda>y. k y = v) xs) \<le> 1"
proof (cases "filter (\<lambda>y. k y = v) xs")
  case Nil
  then show ?thesis by simp
next
  case (Cons a as)
  assume d: "distinct (map k xs)"
  from Cons have "a \<in> set (filter (\<lambda>y. k y = v) xs)" by simp
  then have a: "a \<in> set xs" "k a = v" by auto
  from distinct_key_filter [OF d a(1)] a(2) show ?thesis by simp
qed

text \<open>
  C6. In a store that holds at most one payment row per order (every store the server
  reaches is one, by \<open>reachable_payments_inv\<close>), for a well-formed payment request (order
  id, method and a positive amount) by the owner of the order, and the payment row \<open>p\<close>
  of that order: when \<open>p\<close> is completed the request is answered "Payment already completed
  for this order" (HTTP 400) and the store is unchanged; when \<open>p\<close> is pending, failed or
  cancelled, the payments of the order are deleted, so \<open>p\<close> is gone, before the handler
  either appends the new pending payment (method cash or online) or answers "Invalid
  payment method"; in both cases every order has at most one payment row afterwards.
\<close>

theorem record_payment_existing_payment:
  assumes "distinct (map p_order_id (payments d))"
    and "pb_order_id b \<noteq> 0" and "pb_method b \<noteq> []" and "0 < pb_amount b"
    and "filter (\<lambda>r. o_id r = pb_order_id b \<and> o_user_id r = u_id u) (orders d) \<noteq> []"
    and "p \<in> set (payments d)" and "p_order_id p = pb_order_id b"
  shows "(p_status p = ''completed'' \<longrightarrow>
            record_payment cfg u b env d = (Inl PaymentAlreadyCompletedForOrder, d)
            \<and> http_status PaymentAlreadyCompletedForOrder = 400)
       \<and> (p_status p = ''pending'' \<or> p_status p = ''failed'' \<or> p_status p = ''cancelled'' \<longrightarrow>
            (pb_method b = ''cash'' \<or> pb_method b = ''online'' \<longrightarrow>
               (\<exists>tx url.
                  fst (record_payment cfg u b env d)
                    = Inr (PaymentCreated (next_payment_id d) ''pending'' tx url)
                  \<and> payments (snd (record_payment cfg u b env d))
                    = delete_where (\<lambda>q. p_order_id q = pb_order_id b) (payments d) @
                      [\<lparr>p_payment_id = next_payment_id d, p_order_id = pb_order_id b,
                        p_method = pb_method b, p_amount = pb_amount b, p_status = ''pending'',
                        p_transaction_id = tx, p_created_at = pe_now env\<rparr>]))
            \<and> (pb_method b \<noteq> ''cash'' \<and> pb_method b \<noteq> ''online'' \<longrightarrow>
                 fst (record_payment cfg u b env d) = Inl InvalidPaymentMethod
                 \<and> payments (snd (record_payment cfg u b env d))
                    = delete_where (\<lambda>q. p_order_id q = pb_order_id b) (payments d))
            \<and> p \<notin> set (delete_where (\<lambda>q. p_order_id q = pb_order_id b) (payments d))
            \<and> (\<forall>oid. length (filter (\<lambda>q. p_order_id q = oid)
                                  (payments (snd (record_payment cfg u b env d)))) \<le> 1))"
proof -
  note dist = assms(1)
  let ?kept = "delete_where (\<lambda>q. p_order_id q = pb_order_id b) (payments d)"
  have first: "filter (\<lambda>q. p_order_id q = pb_order_id b) (payments d) = [p]"
    using distinct_key_filter [OF dist assms(6)] assms(7) by simp
  have completed: "p_status p = ''completed'' \<Longrightarrow>
      record_payment cfg u b env d = (Inl PaymentAlreadyCompletedForOrder, d)"
    using assms(2-5) first by (simp add: record_payment_def purge_payments_def)
  have purge: "p_status p = ''pending'' \<or> p_status p = ''failed'' \<or> p_status p = ''cancelled'' \<Longrightarrow>
      purge_payments (pb_order_id b) d = Inr (d\<lparr>payments := ?kept\<rparr>)"
    using first by (auto simp: purge_payments_def)
  have gone: "p \<notin> set ?kept"
    using assms(7) by (simp add: delete_where_def)
  have valid: "(pb_method b = ''cash'' \<or> pb_method b = ''online'') \<Longrightarrow>
      p_status p = ''pending'' \<or> p_status p = ''failed'' \<or> p_status p = ''cancelled'' \<Longrightarrow>
      \<exists>tx url.
        fst (record_payment cfg u b env d)
          = Inr (PaymentCreated (next_payment_id d) ''pending'' tx url)
        \<and> payments (snd (record_payment cfg u b env d))
          = ?kept @
            [\<lparr>p_payment_id = next_payment_id d, p_order_id = pb_order_id b,
              p_method = pb_method b, p_amount = pb_amount b, p_status = ''pending'',
              p_transaction_id = tx, p_created_at = pe_now env\<rparr>]"
    using assms(2-5) purge
    by (auto simp: record_payment_def Let_def store_payment_reply store_payment_payments)
  have invalid: "pb_method b \<noteq> ''cash'' \<and> pb_method b \<noteq> ''online'' \<Longrightarrow>
      p_status p = ''pending'' \<or> p_status p = ''failed'' \<or> p_status p = ''cancelled'' \<Longrightarrow>
      fst (record_payment cfg u b env d) = Inl InvalidPaymentMethod
      \<and> payments (snd (record_payment cfg u b env d)) = ?kept"
    using assms(2-5) purge by (auto simp: record_payment_def)
  have kept: "distinct (map p_order_id ?kept)"
    by (rule distinct_map_delete_where [OF dist])
  have free: "pb_order_id b \<notin> set (map p_order_id ?kept)"
    by (auto simp: delete_where_def)
  have one: "\<forall>oid. length (filter (\<lambda>q. p_order_id q = oid)
                                  (payments (snd (record_payment cfg u b env d)))) \<le> 1"
    if st: "p_status p = ''pending'' \<or> p_status p = ''failed'' \<or> p_status p = ''cancelled''"
  proof -
    have "distinct (map p_order_id (payments (snd (record_payment cfg u b env d))))"
    proof (cases "pb_method b = ''cash'' \<or> pb_method b = ''online''")
      case True
      from valid [OF True st] obtain tx where
        "payments (snd (record_payment cfg u b env d))
          = ?kept @
            [\<lparr>p_payment_id = next_payment_id d, p_order_id = pb_order_id b,
              p_method = pb_method b, p_amount = pb_amount b, p_status = ''pending'',
              p_transaction_id = tx, p_created_at = pe_now env\<rparr>]"
        by blast
      with kept free show ?thesis by simp
    next
      case False
      with invalid st have "payments (snd (record_payment cfg u b env d)) = ?kept" by blast
      with kept show ?thesis by simp
    qed
    then show ?thesis by (intro allI distinct_key_at_most_one)
  qed
  from completed valid invalid gone one show ?thesis by simp
qed

lemma cash_db_eq:
  "cash_db = \<lparr>foods =
     [\<lparr>f_id = 1, f_name = ''pho'', f_description = None, f_price = 50000, f_img_url = None,
         f_is_available = Some True, f_category_id = 1\<rparr>],
     orders = [\<lparr>o_id = 1, o_user_id = 7, o_total_price = 100000, o_status = ''confirmed'',
                o_created_at = 10\<rparr>],
     order_items = [\<lparr>oi_id = 1, oi_order_id = 1, oi_food_id = 1, oi_quantity = 2,
                     oi_unit_price = 50000\<rparr>],
     payments = [\<lparr>p_payment_id = 1, p_order_id = 1, p_method = ''cash'', p_amount = 100000,
                  p_status = ''pending'', p_transaction_id = None, p_created_at = 20\<rparr>],
     tickets = [\<lparr>t_id = 1, t_order_id = 1, t_ticket_code = code1, t_issued_at = 10,
                 t_is_used = False\<rparr>],
     next_food_id = 2, next_order_id = 2, next_order_item_id = 2, next_payment_id = 2,
     next_ticket_id = 2\<rparr>"
  by (simp add: cash_db_def example_simps payment_simps)

lemma cash_paid_db_eq:
  "cash_paid_db = cash_db\<lparr>payments :=
     [\<lparr>p_payment_id = 1, p_order_id = 1, p_method = ''cash'', p_amount = 100000,
       p_status = ''completed'', p_transaction_id = None, p_created_at = 20\<rparr>]\<rparr>"
  by (simp add: cash_paid_db_def cash_db_eq confirm_payment_def admin_def update_where_def)

lemma payment_status_db_eq:
  "payment_status_db st = cash_db\<lparr>payments :=
     [\<lparr>p_payment_id = 1, p_order_id = 1, p_method = ''cash'', p_amount = 100000,
       p_status = st, p_transaction_id = None, p_created_at = 20\<rparr>]\<rparr>"
  by (simp add: payment_status_db_def cash_db_eq)

lemma reachable_examples:
  "reachable example_cfg ordered_db" "reachable example_cfg cash_db"
  "reachable example_cfg cash_paid_db" "reachable example_cfg completed_db"
  "reachable example_cfg online_db"
  unfolding ordered_db_def cash_db_def cash_paid_db_def completed_db_def online_db_def
  by (intro reachable_run reachable_empty)+

theorem record_payment_existing_payment_witness:
  "map p_status (payments cash_paid_db) = [''completed'']
   \<and> record_payment example_cfg customer (payment_of ''cash'') example_env cash_paid_db
       = (Inl PaymentAlreadyCompletedForOrder, cash_paid_db)
   \<and> map p_status (payments cash_db) = [''pending'']
   \<and> (\<exists>tx url. fst (record_payment example_cfg customer (payment_of ''online'') example_env cash_db)
                   = Inr (PaymentCreated 2 ''pending'' tx url)
                \<and> payments (snd (record_payment example_cfg customer (payment_of ''online'') example_env cash_db))
                   = [\<lparr>p_payment_id = 2, p_order_id = 1, p_method = ''online'', p_amount = 100000,
                        p_status = ''pending'', p_transaction_id = tx, p_created_at = 20\<rparr>])
   \<and> map p_status (payments (payment_status_db ''failed'')) = [''failed'']
   \<and> (\<exists>tx url. fst (record_payment example_cfg customer (payment_of ''cash'') example_env
                        (payment_status_db ''failed''))
                   = Inr (PaymentCreated 2 ''pending'' tx url)
                \<and> payments (snd (record_payment example_cfg customer (payment_of ''cash'') example_env
                        (payment_status_db ''failed'')))
                   = [\<lparr>p_payment_id = 2, p_order_id = 1, p_method = ''cash'', p_amount = 100000,
                        p_status = ''pending'', p_transaction_id = tx, p_created_at = 20\<rparr>])
   \<and> map p_status (payments (payment_status_db ''cancelled'')) = [''cancelled'']
   \<and> fst (record_payment example_cfg customer (payment_of ''card'') example_env
             (payment_status_db ''cancelled''))
       = Inl InvalidPaymentMethod
   \<and> payments (snd (record_payment example_cfg customer (payment_of ''card'') example_env
             (payment_status_db ''cancelled''))) = []"
proof -
  let ?row = "\<lambda>st. \<lparr>p_payment_id = 1, p_order_id = 1, p_method = ''cash'', p_amount = 100000,
       p_status = st, p_transaction_id = None, p_created_at = 20\<rparr>"
  have paid: "payments cash_paid_db = [?row ''completed'']" by (simp add: cash_paid_db_eq)
  have pend: "payments cash_db = [?row ''pending'']" "next_payment_id cash_db = 2"
    by (simp_all add: cash_db_eq)
  have other: "payments (payment_status_db st) = [?row st]"
    "next_payment_id (payment_status_db st) = 2" for st
    by (simp_all add: payment_status_db_eq cash_db_eq)
  have own: "filter (\<lambda>r. o_id r = pb_order_id (payment_of m) \<and> o_user_id r = u_id customer)
               (orders cash_paid_db) \<noteq> []"
            "filter (\<lambda>r. o_id r = pb_order_id (payment_of m) \<and> o_user_id r = u_id customer)
               (orders cash_db) \<noteq> []"
            "filter (\<lambda>r. o_id r = pb_order_id (payment_of m) \<and> o_user_id r = u_id customer)
               (orders (payment_status_db st)) \<noteq> []" for m st
    by (simp_all add: cash_paid_db_eq payment_status_db_eq cash_db_eq payment_of_simps customer_def)
  have one: "distinct (map p_order_id (payments cash_paid_db))"
    "distinct (map p_order_id (payments cash_db))"
    "distinct (map p_order_id (payments (payment_status_db st)))" for st
    by (simp_all add: paid pend other)
  have a: "record_payment example_cfg customer (payment_of ''cash'') example_env cash_paid_db
       = (Inl PaymentAlreadyCompletedForOrder, cash_paid_db)"
    using record_payment_existing_payment [OF one(1), where b = "payment_of ''cash''"
        and u = customer and p = "?row ''completed''" and cfg = example_cfg and env = example_env] own(1) paid
    by (simp add: payment_of_simps)
  have b: "\<exists>tx url. fst (record_payment example_cfg customer (payment_of ''online'') example_env cash_db)
                   = Inr (PaymentCreated 2 ''pending'' tx url)
                \<and> payments (snd (record_payment example_cfg customer (payment_of ''online'') example_env cash_db))
                   = [\<lparr>p_payment_id = 2, p_order_id = 1, p_method = ''online'', p_amount = 100000,
                        p_status = ''pending'', p_transaction_id = tx, p_created_at = 20\<rparr>]"
    using record_payment_existing_payment [OF one(2), where b = "payment_of ''online''"
        and u = customer and p = "?row ''pending''" and cfg = example_cfg and env = example_env] own(2) pend
    by (simp add: payment_of_simps delete_where_def example_env_simps)
  have c: "\<exists>tx url. fst (record_payment example_cfg customer (payment_of ''cash'') example_env
                        (payment_status_db ''failed''))
                   = Inr (PaymentCreated 2 ''pending'' tx url)
                \<and> payments (snd (record_payment example_cfg customer (payment_of ''cash'') example_env
                        (payment_status_db ''failed'')))
                   = [\<lparr>p_payment_id = 2, p_order_id = 1, p_method = ''cash'', p_amount = 100000,
                        p_status = ''pending'', p_transaction_id = tx, p_created_at = 20\<rparr>]"
    using record_payment_existing_payment [OF one(3) [of "''failed''"],
        where b = "payment_of ''cash''" and u = customer and p = "?row ''failed''"
        and cfg = example_cfg and env = example_env] own(3) [of "''cash''" "''failed''"]
      other [of "''failed''"]
    by (simp add: payment_of_simps delete_where_def example_env_simps)
  have e: "fst (record_payment example_cfg customer (payment_of ''card'') example_env
             (payment_status_db ''cancelled''))
       = Inl InvalidPaymentMethod
   \<and> payments (snd (record_payment example_cfg customer (payment_of ''card'') example_env
             (payment_status_db ''cancelled''))) = []"
    using record_payment_existing_payment [OF one(3) [of "''cancelled''"],
        where b = "payment_of ''card''" and u = customer and p = "?row ''cancelled''"
        and cfg = example_cfg and env = example_env]
      own(3) [of "''card''" "''cancelled''"] other [of "''cancelled''"]
    by (simp add: payment_of_simps delete_where_def)
  from a b c e paid pend other [of "''failed''"] other [of "''cancelled''"]
  show ?thesis by simp
qed

end
